theory Spec2Isabelle
  imports
    Main
    "HOL-Library.AList"
    "HOL-Library.Char_ord"
    "HOL-Library.List_Lexorder"
    "HOL-Library.Option_ord"
    "HOL-Library.Product_Lexorder"
begin

section \<open>Python values and exceptions\<close>

text \<open>
  The configuration module \<^verbatim>\<open>pulsar/utils/config.py\<close> is embedded function by function,
  with the meaning that Python 3 gives it (from 3.7 on a dictionary keeps the order in
  which its keys were inserted).
  Values that settings hold are dynamically typed in the source; the model gives them the
  type \<open>pyval\<close>. \<open>PFunction n\<close> is a plain function with \<open>n\<close> parameters, \<open>PObject (Some n)\<close>
  an object that is not a function and whose \<^verbatim>\<open>__call__\<close> has \<open>n\<close> parameters (the receiver
  included), \<open>PObject None\<close> an object that cannot be called. The source never updates a list
  in place, so lists are values. Strings are ASCII text.

  An exception is its class, the message template of the source and the values the source
  interpolates into the template with \<^verbatim>\<open>%\<close>.
\<close>

datatype pyval =
    PNone
  | PBool bool
  | PInt int
  | PStr string
  | PList "pyval list"
  | PFunction nat
  | PObject "nat option"

datatype exc_class =
  TypeError | ValueError | AttributeError | KeyError | NameError | RecursionError | ReferenceError

datatype py_error = Exc (exc_kind: exc_class) (exc_msg: string) (exc_args: "pyval list")

fun py_truthy :: "pyval \<Rightarrow> bool" where
  "py_truthy PNone = False"
| "py_truthy (PBool b) = b"
| "py_truthy (PInt n) = (n \<noteq> 0)"
| "py_truthy (PStr s) = (s \<noteq> [])"
| "py_truthy (PList xs) = (xs \<noteq> [])"
| "py_truthy (PFunction n) = True"
| "py_truthy (PObject c) = True"

text \<open>Truth value of an attribute that is \<^verbatim>\<open>None\<close> or a string (or a list).\<close>

definition truthy_opt :: "'a list option \<Rightarrow> bool" where
  "truthy_opt x = (case x of None \<Rightarrow> False | Some s \<Rightarrow> s \<noteq> [])"

definition opt_val :: "string option \<Rightarrow> pyval" where
  "opt_val x = (case x of None \<Rightarrow> PNone | Some s \<Rightarrow> PStr s)"

subsection \<open>String methods\<close>

definition py_isspace :: "char \<Rightarrow> bool" where
  "py_isspace c = (c \<in> set [CHR 0x09, CHR 0x0A, CHR 0x0B, CHR 0x0C, CHR 0x0D,
                              CHR 0x1C, CHR 0x1D, CHR 0x1E, CHR 0x1F, CHR 0x20])"

definition py_strip :: "string \<Rightarrow> string" where
  "py_strip s = rev (dropWhile py_isspace (rev (dropWhile py_isspace s)))"

definition py_lower_char :: "char \<Rightarrow> char" where
  "py_lower_char c =
     (case map_of (zip ''ABCDEFGHIJKLMNOPQRSTUVWXYZ'' ''abcdefghijklmnopqrstuvwxyz'') c of
        None \<Rightarrow> c | Some l \<Rightarrow> l)"

definition py_lower :: "string \<Rightarrow> string" where
  "py_lower s = map py_lower_char s"

text \<open>
  \<^verbatim>\<open>str.splitlines\<close> as far as \<^verbatim>\<open>fmt_desc\<close> needs it: the first line, or the empty
  string when there is no line.
\<close>

definition first_line :: "string \<Rightarrow> string" where
  "first_line s =
     takeWhile (\<lambda>c. c \<notin> set [CHR 0x0A, CHR 0x0B, CHR 0x0C, CHR 0x0D, CHR 0x1C, CHR 0x1D, CHR 0x1E]) s"

subsection \<open>\<^verbatim>\<open>int(val, 0)\<close>\<close>

text \<open>
  \<^verbatim>\<open>int(s, 0)\<close> of Python 3 reads an integer literal: optional white space, an optional
  sign, an optional base prefix (\<^verbatim>\<open>0x\<close>, \<^verbatim>\<open>0o\<close>, \<^verbatim>\<open>0b\<close>, in either case), digits of
  that base with single underscores between them, optional white space. Without a prefix
  the base is ten, and a literal that starts with \<^verbatim>\<open>0\<close> must then be zero.
\<close>

definition digit_value :: "char \<Rightarrow> nat option" where
  "digit_value c =
     map_of (zip ''0123456789abcdefghijklmnopqrstuvwxyz'' [0 ..< 36] @
             zip ''ABCDEFGHIJKLMNOPQRSTUVWXYZ'' [10 ..< 36]) c"

definition is_digit :: "nat \<Rightarrow> char \<Rightarrow> bool" where
  "is_digit b c = (case digit_value c of None \<Rightarrow> False | Some d \<Rightarrow> d < b)"

text \<open>
  The digit loop: \<open>prev\<close> is the character read last, \<open>acc\<close> the value so far and \<open>n\<close> the
  number of digits. It stops at the first character that is neither a digit of the base
  nor an underscore, and fails on two underscores in a row and on a trailing underscore.
\<close>

fun scan_digits :: "nat \<Rightarrow> char \<Rightarrow> nat \<Rightarrow> nat \<Rightarrow> string \<Rightarrow> (nat \<times> nat \<times> string) option" where
  "scan_digits b prev acc n [] = (if prev = CHR ''_'' then None else Some (acc, n, []))"
| "scan_digits b prev acc n (c # cs) =
     (if c = CHR ''_'' then
        (if prev = CHR ''_'' then None else scan_digits b c acc n cs)
      else if is_digit b c then scan_digits b c (acc * b + the (digit_value c)) (Suc n) cs
      else if prev = CHR ''_'' then None
      else Some (acc, n, c # cs))"

definition split_sign :: "string \<Rightarrow> bool \<times> string" where
  "split_sign s = (case s of
       c # cs \<Rightarrow> (if c = CHR ''+'' then (False, cs) else if c = CHR ''-'' then (True, cs)
                 else (False, s))
     | [] \<Rightarrow> (False, s))"

text \<open>The base, whether the literal is an old-style octal one, and the text after the prefix.\<close>

definition split_base :: "string \<Rightarrow> nat \<times> bool \<times> string" where
  "split_base s = (case s of
       c # d # cs \<Rightarrow>
         (if c \<noteq> CHR ''0'' then (10, False, s)
          else if d \<in> set ''xX'' then (16, False, (case cs of u # r \<Rightarrow> if u = CHR ''_'' then r else cs | [] \<Rightarrow> cs))
          else if d \<in> set ''oO'' then (8, False, (case cs of u # r \<Rightarrow> if u = CHR ''_'' then r else cs | [] \<Rightarrow> cs))
          else if d \<in> set ''bB'' then (2, False, (case cs of u # r \<Rightarrow> if u = CHR ''_'' then r else cs | [] \<Rightarrow> cs))
          else (10, True, s))
     | [c] \<Rightarrow> (if c \<noteq> CHR ''0'' then (10, False, s) else (10, True, s))
     | [] \<Rightarrow> (10, False, s))"

definition int_base0 :: "string \<Rightarrow> int option" where
  "int_base0 s =
     (let (neg, s1) = split_sign (dropWhile py_isspace s);
          (b, old_octal, s2) = split_base s1
      in if s2 \<noteq> [] \<and> hd s2 = CHR ''_'' then None
         else (case scan_digits b (CHR 0x00) 0 0 s2 of
                 None \<Rightarrow> None
               | Some (v, n, rest) \<Rightarrow>
                   if old_octal \<and> v \<noteq> 0 then None
                   else if n = 0 then None
                   else if dropWhile py_isspace rest \<noteq> [] then None
                   else Some (if neg then - int v else int v)))"

section \<open>Validators\<close>

text \<open>
  A validator returns the converted value or raises. \<^verbatim>\<open>int_type\<close>, \<^verbatim>\<open>string_type\<close>,
  \<^verbatim>\<open>is_bytes_or_string\<close> and \<^verbatim>\<open>to_string\<close> come from \<^verbatim>\<open>pulsar.utils.py2py3\<close>: the
  integers (booleans among them) and the text strings.
\<close>

definition validate_bool :: "pyval \<Rightarrow> py_error + pyval" where
  "validate_bool val = (case val of
       PBool b \<Rightarrow> Inr val
     | PStr s \<Rightarrow>
         (if py_strip (py_lower s) = ''true'' then Inr (PBool True)
          else if py_strip (py_lower s) = ''false'' then Inr (PBool False)
          else Inl (Exc ValueError ''Invalid boolean: %s'' [val]))
     | _ \<Rightarrow> Inl (Exc TypeError ''Invalid type for casting: %s'' [val]))"

text \<open>The conversion at the head of \<^verbatim>\<open>validate_pos_int\<close>: \<^verbatim>\<open>int(val)\<close> or \<^verbatim>\<open>int(val, 0)\<close>.\<close>

definition to_int :: "pyval \<Rightarrow> py_error + int" where
  "to_int val = (case val of
       PInt n \<Rightarrow> Inr n
     | PBool b \<Rightarrow> Inr (if b then 1 else 0)
     | PStr s \<Rightarrow> (case int_base0 s of
           Some n \<Rightarrow> Inr n
         | None \<Rightarrow> Inl (Exc ValueError ''invalid literal for int() with base 0: %r'' [val]))
     | _ \<Rightarrow> Inl (Exc TypeError ''int() cannot convert non-string with explicit base'' []))"

definition validate_pos_int :: "pyval \<Rightarrow> py_error + pyval" where
  "validate_pos_int val = (case to_int val of
       Inl e \<Rightarrow> Inl e
     | Inr n \<Rightarrow> if n < 0 then Inl (Exc ValueError ''Value must be positive: %s'' [PInt n])
               else Inr (PInt n))"

definition validate_string :: "pyval \<Rightarrow> py_error + pyval" where
  "validate_string val = (case val of
       PNone \<Rightarrow> Inr PNone
     | PStr s \<Rightarrow> Inr (PStr (py_strip s))
     | _ \<Rightarrow> Inl (Exc TypeError ''Not a string: %s'' [val]))"

definition validate_list :: "pyval \<Rightarrow> py_error + pyval" where
  "validate_list val =
     (if py_truthy val \<and> \<not> (case val of PList xs \<Rightarrow> True | _ \<Rightarrow> False)
      then Inl (Exc TypeError ''Not a list: %s'' [val])
      else Inr val)"

definition validate_callable :: "nat \<Rightarrow> pyval \<Rightarrow> py_error + pyval" where
  "validate_callable arity val = (case val of
       PFunction n \<Rightarrow>
         (if int arity \<noteq> int n - 0
          then Inl (Exc TypeError ''Value must have an arity of: %s'' [PInt (int arity)])
          else Inr val)
     | PObject (Some n) \<Rightarrow>
         (if int arity \<noteq> int n - 1
          then Inl (Exc TypeError ''Value must have an arity of: %s'' [PInt (int arity)])
          else Inr val)
     | _ \<Rightarrow> Inl (Exc TypeError ''Value is not callable: %s'' [val]))"

definition wrap_method :: "(pyval \<Rightarrow> py_error + pyval) \<Rightarrow> (pyval \<Rightarrow> py_error + pyval)" where
  "wrap_method func = (\<lambda>val. func val)"

section \<open>Settings\<close>

text \<open>
  A \<^verbatim>\<open>Setting\<close> class and its instances are records of the attributes the class
  \<^verbatim>\<open>Setting\<close> lists (the fields carry the prefix \<open>s_\<close>). An instance reads an attribute it
  has not assigned from its class, so an instance starts as a copy of the record of its
  class. \<open>s_validator\<close> is \<open>None\<close> when the attribute is not callable.
\<close>

datatype ptype = TInt | TName string

record setting =
  s_name :: "string option"
  s_app :: "string option"
  s_section :: "string option"
  s_cli :: "string list option"
  s_validator :: "(pyval \<Rightarrow> py_error + pyval) option"
  s_type :: "ptype option"
  s_meta :: "string option"
  s_action :: "string option"
  s_default :: pyval
  s_nargs :: pyval
  s_order :: nat
  s_short :: "string option"
  s_desc :: "string option"
  s_value :: pyval

text \<open>
  Setting objects live in a store: an object is the index of its record, and creating an
  object appends a record. A reference beyond the store does not occur in the program;
  the model answers it with \<open>ReferenceError\<close>.
\<close>

type_synonym heap = "setting list"

definition dangling :: py_error where
  "dangling = Exc ReferenceError ''no such object'' []"

definition Setting_get :: "heap \<Rightarrow> nat \<Rightarrow> py_error + pyval" where
  "Setting_get h a = (if a < length h then Inr (s_value (h ! a)) else Inl dangling)"

definition Setting_set :: "heap \<Rightarrow> nat \<Rightarrow> pyval \<Rightarrow> (py_error + unit) \<times> heap" where
  "Setting_set h a val =
     (if a < length h then
        (case s_validator (h ! a) of
           None \<Rightarrow> (Inl (Exc TypeError ''Invalid validator: %s'' [opt_val (s_name (h ! a))]), h)
         | Some validator \<Rightarrow>
             (case validator val of
                Inl e \<Rightarrow> (Inl e, h)
              | Inr v \<Rightarrow> (Inr (), h[a := (h ! a)\<lparr>s_value := v\<rparr>])))
      else (Inl dangling, h))"

text \<open>\<^verbatim>\<open>copy.copy\<close>: a new object with the attributes of the old one.\<close>

definition Setting_copy :: "heap \<Rightarrow> nat \<Rightarrow> (py_error + nat) \<times> heap" where
  "Setting_copy h a =
     (if a < length h then (Inr (length h), h @ [h ! a]) else (Inl dangling, h))"

definition or_opt :: "string option \<Rightarrow> string option \<Rightarrow> string option" where
  "or_opt x y = (if truthy_opt x then x else y)"

text \<open>Calling the class \<open>cls\<close>: the new object, then \<^verbatim>\<open>__init__\<close> on it.\<close>

definition Setting_init :: "heap \<Rightarrow> nat \<Rightarrow> (py_error + unit) \<times> heap" where
  "Setting_init h a =
     (if a < length h then
        (case (if s_default (h ! a) \<noteq> PNone then Setting_set h a (s_default (h ! a))
               else (Inr (), h)) of
           (Inl e, h1) \<Rightarrow> (Inl e, h1)
         | (Inr u, h1) \<Rightarrow>
             (let h2 = h1[a := (h1 ! a)\<lparr>s_short := or_opt (s_short (h1 ! a)) (s_desc (h1 ! a))\<rparr>];
                  h3 = h2[a := (h2 ! a)\<lparr>s_desc := or_opt (s_desc (h2 ! a)) (s_short (h2 ! a))\<rparr>]
              in (Inr (), h3)))
      else (Inl dangling, h))"

definition Setting_new :: "setting \<Rightarrow> heap \<Rightarrow> (py_error + nat) \<times> heap" where
  "Setting_new cls h =
     (case Setting_init (h @ [cls]) (length h) of
        (Inl e, h1) \<Rightarrow> (Inl e, h1)
      | (Inr u, h1) \<Rightarrow> (Inr (length h), h1))"

section \<open>The registry\<close>

text \<open>
  What the module takes from outside: the constants \<^verbatim>\<open>SERVER_NAME\<close> and \<^verbatim>\<open>__version__\<close> of
  the package, the names that \<^verbatim>\<open>from pulsar.utils.py2py3 import *\<close> binds, the library
  function \<^verbatim>\<open>textwrap.dedent\<close>, and the functions of \<^verbatim>\<open>pulsar.utils.system\<close> and
  \<^verbatim>\<open>to_bytestring\<close> that the properties of \<^verbatim>\<open>Config\<close> call.
\<close>

record host =
  host_SERVER_NAME :: string
  host_version :: string
  host_star_names :: "string list"
  host_dedent :: "string \<Rightarrow> string"
  host_load_worker_class :: "pyval \<Rightarrow> py_error + pyval"
  host_parse_address :: "pyval \<Rightarrow> py_error + pyval"
  host_get_uid :: "pyval \<Rightarrow> py_error + pyval"
  host_get_gid :: "pyval \<Rightarrow> py_error + pyval"
  host_to_bytestring :: "pyval \<Rightarrow> py_error + pyval"

text \<open>
  The body of a class statement, as the metaclass receives it: whether a base class is a
  setting class (\<^verbatim>\<open>parents\<close>), and the attributes of the body. \<open>b_validator\<close> and \<open>b_desc\<close>
  are \<open>None\<close> when the body does not assign them; the other attributes then have the value
  they have in \<^verbatim>\<open>Setting\<close>.
\<close>

record class_body =
  b_parents :: bool
  b_virtual :: bool
  b_name :: "string option"
  b_app :: "string option"
  b_section :: "string option"
  b_cli :: "string list option"
  b_validator :: "(pyval \<Rightarrow> py_error + pyval) option"
  b_type :: "ptype option"
  b_meta :: "string option"
  b_action :: "string option"
  b_default :: pyval
  b_nargs :: pyval
  b_desc :: "string option"

record registry =
  KNOWN_SETTINGS :: "setting list"
  KNOWN_SETTINGS_SET :: "string set"

text \<open>The class that \<^verbatim>\<open>type.__new__\<close> builds from a body (\<open>s_order\<close> is not yet assigned).\<close>

definition super_new :: "class_body \<Rightarrow> setting" where
  "super_new body =
     \<lparr>s_name = b_name body, s_app = b_app body, s_section = b_section body,
      s_cli = b_cli body, s_validator = b_validator body, s_type = b_type body,
      s_meta = b_meta body, s_action = b_action body, s_default = b_default body,
      s_nargs = b_nargs body, s_order = 0, s_short = None, s_desc = b_desc body,
      s_value = PNone\<rparr>"

definition fmt_desc :: "host \<Rightarrow> setting \<Rightarrow> string \<Rightarrow> setting" where
  "fmt_desc env cls desc =
     (let desc = py_strip (host_dedent env desc)
      in cls\<lparr>s_desc := Some desc, s_short := Some (first_line desc)\<rparr>)"

definition SettingMeta_new ::
    "host \<Rightarrow> class_body \<Rightarrow> registry \<Rightarrow> (py_error + setting) \<times> registry" where
  "SettingMeta_new env body reg =
     (if \<not> b_parents body \<or> b_virtual body then (Inr (super_new body), reg)
      else
        (let new_class = (super_new body)
               \<lparr>s_order := length (KNOWN_SETTINGS reg),
                s_validator := Some (wrap_method
                   (case b_validator body of None \<Rightarrow> validate_string | Some f \<Rightarrow> f))\<rparr>
         in case b_desc body of
              None \<Rightarrow> (Inl (Exc KeyError ''%s'' [PStr ''desc'']), reg)
            | Some desc \<Rightarrow>
                (let cls = fmt_desc env new_class desc
                 in (Inr cls,
                     \<lparr>KNOWN_SETTINGS = KNOWN_SETTINGS reg @ [cls],
                      KNOWN_SETTINGS_SET =
                        (case s_name cls of
                           None \<Rightarrow> KNOWN_SETTINGS_SET reg
                         | Some n \<Rightarrow> if n \<noteq> [] then insert n (KNOWN_SETTINGS_SET reg)
                                    else KNOWN_SETTINGS_SET reg)\<rparr>))))"

subsection \<open>\<^verbatim>\<open>make_settings\<close>\<close>

text \<open>
  The dictionary that \<^verbatim>\<open>make_settings\<close> fills maps a name to a Setting object. It keeps
  the order in which its keys were first inserted, and assigning an existing key replaces
  the value in place.
\<close>

type_synonym settings_dict = "(string option \<times> nat) list"

definition name_in :: "string option \<Rightarrow> string list \<Rightarrow> bool" where
  "name_in n xs = (case n of None \<Rightarrow> False | Some k \<Rightarrow> k \<in> set xs)"

fun make_settings_loop ::
    "setting list \<Rightarrow> string option \<Rightarrow> string list option \<Rightarrow> string list \<Rightarrow>
     settings_dict \<Rightarrow> heap \<Rightarrow> (py_error + settings_dict) \<times> heap" where
  "make_settings_loop [] app include exclude settings h = (Inr settings, h)"
| "make_settings_loop (s # rest) app include exclude settings h =
     (case Setting_new s h of
        (Inl e, h1) \<Rightarrow> (Inl e, h1)
      | (Inr a, h1) \<Rightarrow>
          (let setting = h1 ! a in
           if truthy_opt (s_app setting) \<and> s_app setting \<noteq> app then
             make_settings_loop rest app include exclude settings h1
           else if truthy_opt include \<and> \<not> name_in (s_name setting) (the include)
                   \<and> \<not> truthy_opt (s_app setting) then
             make_settings_loop rest app include exclude settings h1
           else if name_in (s_name setting) exclude then
             make_settings_loop rest app include exclude settings h1
           else
             (case Setting_copy h1 a of
                (Inl e, h2) \<Rightarrow> (Inl e, h2)
              | (Inr c, h2) \<Rightarrow>
                  make_settings_loop rest app include exclude
                    (AList.update (s_name setting) c settings) h2)))"

definition make_settings ::
    "registry \<Rightarrow> string option \<Rightarrow> string list option \<Rightarrow> string list option \<Rightarrow> heap \<Rightarrow>
     (py_error + settings_dict) \<times> heap" where
  "make_settings reg app include exclude h =
     make_settings_loop (KNOWN_SETTINGS reg) app include
       (case exclude of None \<Rightarrow> [] | Some xs \<Rightarrow> xs) [] h"

section \<open>The settings of the module\<close>

text \<open>
  The class statements of the module, in the order of the file. \<open>Setting_attrs\<close> holds the
  values of the attributes in the class \<^verbatim>\<open>Setting\<close>; the body of a subclass overrides some
  of them. A default written \<^verbatim>\<open>staticmethod(f)\<close> reads as the function \<^verbatim>\<open>f\<close>: the hooks
  \<^verbatim>\<open>def_start_server\<close>, \<^verbatim>\<open>def_pre_exec\<close>, \<^verbatim>\<open>default_process\<close> and \<^verbatim>\<open>def_worker_exit\<close> take
  one parameter, \<^verbatim>\<open>def_pre_request\<close> and \<^verbatim>\<open>def_post_request\<close> two. Of each help text
  \<^verbatim>\<open>desc\<close> the model keeps the first line.
\<close>

definition Setting_attrs :: class_body where
  "Setting_attrs =
     \<lparr>b_parents = True, b_virtual = False, b_name = None, b_app = None, b_section = None,
      b_cli = None, b_validator = None, b_type = None, b_meta = None, b_action = None,
      b_default = PNone, b_nargs = PNone, b_desc = None\<rparr>"

definition BaseSettings :: class_body where
  "BaseSettings = Setting_attrs\<lparr>b_parents := False\<rparr>"

definition Setting :: class_body where
  "Setting = Setting_attrs\<lparr>b_virtual := True\<rparr>"

definition ConfigFile :: class_body where
  "ConfigFile =
     Setting_attrs\<lparr>b_name := Some ''config'', b_section := Some ''Config File'',
       b_cli := Some [''-c'', ''--config''], b_meta := Some ''FILE'',
       b_validator := Some validate_string, b_default := PStr ''config.py'',
       b_desc := Some ''The path to a Pulsar config file.''\<rparr>"

definition Workers :: class_body where
  "Workers =
     Setting_attrs\<lparr>b_name := Some ''workers'', b_section := Some ''Worker Processes'',
       b_cli := Some [''-w'', ''--workers''], b_validator := Some validate_pos_int,
       b_type := Some TInt, b_default := PInt 1,
       b_desc := Some ''The number of worker process for handling requests.''\<rparr>"

definition Concurrency :: class_body where
  "Concurrency =
     Setting_attrs\<lparr>b_name := Some ''concurrency'', b_section := Some ''Worker Processes'',
       b_cli := Some [''--concurrency''], b_default := PStr ''process'',
       b_desc := Some ''The type of concurrency to use: ``process`` or ``thread``.''\<rparr>"

definition MaxRequests :: class_body where
  "MaxRequests =
     Setting_attrs\<lparr>b_name := Some ''max_requests'',
       b_section := Some ''Worker Processes'', b_cli := Some [''--max-requests''],
       b_validator := Some validate_pos_int, b_type := Some TInt, b_default := PInt 0,
       b_desc := Some ''The maximum number of requests a worker will process before restarting.''\<rparr>"

definition Timeout :: class_body where
  "Timeout =
     Setting_attrs\<lparr>b_name := Some ''timeout'', b_section := Some ''Worker Processes'',
       b_cli := Some [''-t'', ''--timeout''], b_validator := Some validate_pos_int,
       b_type := Some TInt, b_default := PInt 30,
       b_desc := Some ''Workers silent for more than this many seconds are killed and restarted.''\<rparr>"

definition Keepalive :: class_body where
  "Keepalive =
     Setting_attrs\<lparr>b_name := Some ''keepalive'', b_section := Some ''Worker Processes'',
       b_cli := Some [''--keep-alive''], b_validator := Some validate_pos_int,
       b_type := Some TInt, b_default := PInt 2,
       b_desc := Some ''The number of seconds to wait for requests on a Keep-Alive connection.''\<rparr>"

definition HttpProxyServer :: class_body where
  "HttpProxyServer =
     Setting_attrs\<lparr>b_name := Some ''http_proxy'', b_section := Some ''Http Client'',
       b_cli := Some [''--http-proxy''], b_default := PStr [],
       b_desc := Some ''The HTTP proxy server to use with HttpClient.''\<rparr>"

definition Debug :: class_body where
  "Debug =
     Setting_attrs\<lparr>b_name := Some ''debug'', b_section := Some ''Debugging'',
       b_cli := Some [''--debug''], b_validator := Some validate_bool,
       b_action := Some ''store_true'', b_default := PBool False,
       b_desc := Some ''Turn on debugging in the server.''\<rparr>"

definition Daemon :: class_body where
  "Daemon =
     Setting_attrs\<lparr>b_name := Some ''daemon'', b_section := Some ''Server Mechanics'',
       b_cli := Some [''-D'', ''--daemon''], b_validator := Some validate_bool,
       b_action := Some ''store_true'', b_default := PBool False,
       b_desc := Some ''Daemonize the Pulsar process.''\<rparr>"

definition Pidfile :: class_body where
  "Pidfile =
     Setting_attrs\<lparr>b_name := Some ''pidfile'', b_section := Some ''Server Mechanics'',
       b_cli := Some [''-p'', ''--pid''], b_meta := Some ''FILE'',
       b_validator := Some validate_string, b_default := PNone,
       b_desc := Some ''A filename to use for the PID file.''\<rparr>"

definition User :: class_body where
  "User =
     Setting_attrs\<lparr>b_name := Some ''user'', b_section := Some ''Server Mechanics'',
       b_cli := Some [''-u'', ''--user''], b_meta := Some ''USER'',
       b_validator := Some validate_string, b_default := PNone,
       b_desc := Some ''Switch worker processes to run as this user.''\<rparr>"

definition Group :: class_body where
  "Group =
     Setting_attrs\<lparr>b_name := Some ''group'', b_section := Some ''Server Mechanics'',
       b_cli := Some [''-g'', ''--group''], b_meta := Some ''GROUP'',
       b_validator := Some validate_string, b_default := PNone,
       b_desc := Some ''Switch worker process to run as this group.''\<rparr>"

definition Umask :: class_body where
  "Umask =
     Setting_attrs\<lparr>b_name := Some ''umask'', b_section := Some ''Server Mechanics'',
       b_cli := Some [''-m'', ''--umask''], b_validator := Some validate_pos_int,
       b_type := Some TInt, b_default := PInt 0,
       b_desc := Some ''A bit mask for the file mode on files written by Gunicorn.''\<rparr>"

definition TmpUploadDir :: class_body where
  "TmpUploadDir =
     Setting_attrs\<lparr>b_name := Some ''tmp_upload_dir'',
       b_section := Some ''Server Mechanics'', b_meta := Some ''DIR'',
       b_validator := Some validate_string, b_default := PNone,
       b_desc := Some ''Directory to store temporary request data as they are read.''\<rparr>"

definition Loglevel :: class_body where
  "Loglevel =
     Setting_attrs\<lparr>b_name := Some ''loglevel'', b_section := Some ''Logging'',
       b_cli := Some [''--log-level''], b_meta := Some ''LEVEL'',
       b_validator := Some validate_string, b_default := PStr ''info'',
       b_desc := Some ''The granularity of log outputs.''\<rparr>"

definition LogEvery :: class_body where
  "LogEvery =
     Setting_attrs\<lparr>b_name := Some ''logevery'', b_section := Some ''Logging'',
       b_cli := Some [''--log-every''], b_validator := Some validate_pos_int,
       b_default := PInt 0, b_desc := Some ''Log information every n seconds''\<rparr>"

definition LogConfig :: class_body where
  "LogConfig =
     Setting_attrs\<lparr>b_name := Some ''logconfig'', b_section := Some ''Logging'',
       b_default := PNone, b_desc := Some ''The logging configuration dictionary.''\<rparr>"

definition Procname :: class_body where
  "Procname =
     Setting_attrs\<lparr>b_name := Some ''proc_name'', b_section := Some ''Process Naming'',
       b_cli := Some [''-n'', ''--name''], b_meta := Some ''STRING'',
       b_validator := Some validate_string, b_default := PNone,
       b_desc := Some ''A base to use with setproctitle for process naming.''\<rparr>"

definition DefaultProcName :: "host \<Rightarrow> class_body" where
  "DefaultProcName env =
     Setting_attrs\<lparr>b_name := Some ''default_proc_name'',
       b_section := Some ''Process Naming'', b_validator := Some validate_string,
       b_default := PStr (host_SERVER_NAME env),
       b_desc := Some ''Internal setting that is adjusted for each type of application.''\<rparr>"

definition WhenReady :: class_body where
  "WhenReady =
     Setting_attrs\<lparr>b_name := Some ''when_ready'', b_section := Some ''Server Hooks'',
       b_validator := Some (validate_callable 1), b_type := Some (TName ''callable''),
       b_default := PFunction 1,
       b_desc := Some ''Called just after the server is started.''\<rparr>"

definition Prefork :: class_body where
  "Prefork =
     Setting_attrs\<lparr>b_name := Some ''pre_fork'', b_section := Some ''Server Hooks'',
       b_validator := Some (validate_callable 1), b_type := Some (TName ''callable''),
       b_default := PFunction 1,
       b_desc := Some ''Called just before a worker is forked.''\<rparr>"

definition Postfork :: class_body where
  "Postfork =
     Setting_attrs\<lparr>b_name := Some ''post_fork'', b_section := Some ''Server Hooks'',
       b_validator := Some (validate_callable 1), b_type := Some (TName ''callable''),
       b_default := PFunction 1,
       b_desc := Some ''Called just after a worker has been forked.''\<rparr>"

definition PreExec :: class_body where
  "PreExec =
     Setting_attrs\<lparr>b_name := Some ''pre_exec'', b_section := Some ''Server Hooks'',
       b_validator := Some (validate_callable 1), b_type := Some (TName ''callable''),
       b_default := PFunction 1,
       b_desc := Some ''Called just before a new master process is forked.''\<rparr>"

definition PreRequest :: class_body where
  "PreRequest =
     Setting_attrs\<lparr>b_name := Some ''pre_request'', b_section := Some ''Server Hooks'',
       b_validator := Some (validate_callable 2), b_type := Some (TName ''callable''),
       b_default := PFunction 2,
       b_desc := Some ''Called just before a worker processes the request.''\<rparr>"

definition PostRequest :: class_body where
  "PostRequest =
     Setting_attrs\<lparr>b_name := Some ''post_request'', b_section := Some ''Server Hooks'',
       b_validator := Some (validate_callable 2), b_type := Some (TName ''callable''),
       b_default := PFunction 2,
       b_desc := Some ''Called after a worker processes the request.''\<rparr>"

definition WorkerExit :: class_body where
  "WorkerExit =
     Setting_attrs\<lparr>b_name := Some ''worker_exit'', b_section := Some ''Server Hooks'',
       b_validator := Some (validate_callable 1), b_type := Some (TName ''callable''),
       b_default := PFunction 1,
       b_desc := Some ''Called just after a worker has been exited.''\<rparr>"

definition module_bodies :: "host \<Rightarrow> class_body list" where
  "module_bodies env =
     [BaseSettings, Setting,
      ConfigFile, Workers, Concurrency, MaxRequests, Timeout, Keepalive, HttpProxyServer,
      Debug, Daemon, Pidfile, User, Group, Umask, TmpUploadDir, Loglevel, LogEvery, LogConfig,
      Procname, DefaultProcName env, WhenReady, Prefork, Postfork, PreExec, PreRequest,
      PostRequest, WorkerExit]"

text \<open>
  Importing the module runs the class statements in turn; an exception in one of them
  ends the import.
\<close>

fun declare_all :: "host \<Rightarrow> class_body list \<Rightarrow> registry \<Rightarrow> py_error + registry" where
  "declare_all env [] reg = Inr reg"
| "declare_all env (body # bodies) reg =
     (case SettingMeta_new env body reg of
        (Inl e, reg1) \<Rightarrow> Inl e
      | (Inr cls, reg1) \<Rightarrow> declare_all env bodies reg1)"

definition empty_registry :: registry where
  "empty_registry = \<lparr>KNOWN_SETTINGS = [], KNOWN_SETTINGS_SET = {}\<rparr>"

definition module_import :: "host \<Rightarrow> py_error + registry" where
  "module_import env = declare_all env (module_bodies env) empty_registry"

definition module_registry :: "host \<Rightarrow> registry" where
  "module_registry env = (case module_import env of Inr reg \<Rightarrow> reg | Inl e \<Rightarrow> empty_registry)"

section \<open>Config\<close>

text \<open>
  A \<^verbatim>\<open>Config\<close> object is its instance dictionary. The attribute \<^verbatim>\<open>settings\<close> holds the
  dictionary of \<^verbatim>\<open>make_settings\<close>; every other value that the program or its caller
  assigns is a \<open>pyval\<close>. \<open>ClassAttr n\<close> is what reading the name \<open>n\<close> gives when the class
  answers: a bound method or another object of the class.
\<close>

datatype attr_value = SettingsDict settings_dict | Val pyval | ClassAttr string

type_synonym config = "string \<Rightarrow> attr_value option"

text \<open>
  The attributes of the class \<^verbatim>\<open>Config\<close>: its six properties, the slots and the members
  that its body defines or that it inherits from \<^verbatim>\<open>object\<close> (Python 3). Reading an
  attribute asks a property or slot first, then the instance dictionary, then the other
  members of the class, and \<^verbatim>\<open>__getattr__\<close> last.
\<close>

datatype class_attr = Property | Slot | Member

definition Config_class_attr :: "string \<Rightarrow> class_attr option" where
  "Config_class_attr name =
     (if name \<in> set [''worker_class'', ''workers'', ''address'', ''uid'', ''gid'', ''proc_name'']
      then Some Property
      else if name \<in> set [''__class__'', ''__dict__'', ''__weakref__''] then Some Slot
      else if name \<in> set [''__init__'', ''__getstate__'', ''__setstate__'', ''__getattr__'',
                ''__setattr__'', ''set'', ''parser'', ''__doc__'', ''__module__'',
                ''__delattr__'', ''__dir__'', ''__eq__'', ''__format__'', ''__ge__'',
                ''__getattribute__'', ''__gt__'', ''__hash__'', ''__init_subclass__'',
                ''__le__'', ''__lt__'', ''__ne__'', ''__new__'', ''__reduce__'',
                ''__reduce_ex__'', ''__repr__'', ''__sizeof__'', ''__str__'',
                ''__subclasshook__'']
      then Some Member
      else None)"

text \<open>
  \<^verbatim>\<open>self.settings\<close> inside a method. When the instance dictionary has no such entry the
  read reaches \<^verbatim>\<open>__getattr__\<close>, which reads \<^verbatim>\<open>self.settings\<close> again, without end.
\<close>

definition self_settings :: "config \<Rightarrow> py_error + attr_value" where
  "self_settings c = (case c ''settings'' of
       Some v \<Rightarrow> Inr v
     | None \<Rightarrow> Inl (Exc RecursionError ''maximum recursion depth exceeded'' []))"

fun is_substring :: "string \<Rightarrow> string \<Rightarrow> bool" where
  "is_substring xs [] = (xs = [])"
| "is_substring xs (y # ys) = (take (length xs) (y # ys) = xs \<or> is_substring xs ys)"

text \<open>
  The operations the methods apply to \<^verbatim>\<open>self.settings\<close>: \<^verbatim>\<open>name in d\<close>, \<^verbatim>\<open>d[name]\<close>,
  \<^verbatim>\<open>d.get(name)\<close>. They are defined for whatever the attribute holds.
\<close>

definition contains :: "attr_value \<Rightarrow> string \<Rightarrow> py_error + bool" where
  "contains d name = (case d of
       SettingsDict m \<Rightarrow> Inr (Some name \<in> fst ` set m)
     | Val (PStr s) \<Rightarrow> Inr (is_substring name s)
     | Val (PList xs) \<Rightarrow> Inr (PStr name \<in> set xs)
     | _ \<Rightarrow> Inl (Exc TypeError ''argument is not iterable'' []))"

definition getitem :: "attr_value \<Rightarrow> string \<Rightarrow> py_error + nat" where
  "getitem d name = (case d of
       SettingsDict m \<Rightarrow> (case map_of m (Some name) of
           None \<Rightarrow> Inl (Exc KeyError ''%s'' [PStr name])
         | Some a \<Rightarrow> Inr a)
     | _ \<Rightarrow> Inl (Exc TypeError ''object is not subscriptable by a string'' []))"

definition dict_get :: "attr_value \<Rightarrow> string \<Rightarrow> py_error + nat option" where
  "dict_get d name = (case d of
       SettingsDict m \<Rightarrow> Inr (map_of m (Some name))
     | _ \<Rightarrow> Inl (Exc AttributeError ''object has no attribute %s'' [PStr ''get'']))"

definition Config_getattr :: "registry \<Rightarrow> heap \<Rightarrow> config \<Rightarrow> string \<Rightarrow> py_error + attr_value" where
  "Config_getattr reg h c name = (case self_settings c of
       Inl e \<Rightarrow> Inl e
     | Inr d \<Rightarrow> (case contains d name of
           Inl e \<Rightarrow> Inl e
         | Inr False \<Rightarrow>
             if name \<in> KNOWN_SETTINGS_SET reg then Inr (Val PNone)
             else Inl (Exc AttributeError ''No configuration setting for: %s'' [PStr name])
         | Inr True \<Rightarrow> (case getitem d name of
               Inl e \<Rightarrow> Inl e
             | Inr a \<Rightarrow> (case Setting_get h a of Inl e \<Rightarrow> Inl e | Inr v \<Rightarrow> Inr (Val v)))))"

text \<open>
  \<^verbatim>\<open>object.__setattr__\<close> with a value of the program: a property without a setter and the
  slots refuse it, every other name is stored in the instance dictionary.
\<close>

definition object_setattr :: "config \<Rightarrow> string \<Rightarrow> pyval \<Rightarrow> py_error + config" where
  "object_setattr c name v = (case Config_class_attr name of
       Some Property \<Rightarrow> Inl (Exc AttributeError ''cannot set attribute'' [])
     | Some Slot \<Rightarrow>
         (if name = ''__weakref__'' then Inl (Exc AttributeError ''attribute is not writable'' [])
          else Inl (Exc TypeError ''%s must be set to a class or a dictionary'' [PStr name]))
     | _ \<Rightarrow> Inr (c(name \<mapsto> Val v)))"

definition Config_setattr :: "config \<Rightarrow> string \<Rightarrow> pyval \<Rightarrow> py_error + config" where
  "Config_setattr c name v =
     (case (if name \<noteq> ''settings''
            then (case self_settings c of Inl e \<Rightarrow> Inl e | Inr d \<Rightarrow> contains d name)
            else Inr False) of
        Inl e \<Rightarrow> Inl e
      | Inr True \<Rightarrow> Inl (Exc AttributeError ''Invalid access!'' [])
      | Inr False \<Rightarrow> object_setattr c name v)"

definition Config_set :: "heap \<Rightarrow> config \<Rightarrow> string \<Rightarrow> pyval \<Rightarrow> (py_error + unit) \<times> heap" where
  "Config_set h c name v = (case self_settings c of
       Inl e \<Rightarrow> (Inl e, h)
     | Inr d \<Rightarrow> (case contains d name of
           Inl e \<Rightarrow> (Inl e, h)
         | Inr False \<Rightarrow>
             (Inl (Exc AttributeError ''No configuration setting for: %s'' [PStr name]), h)
         | Inr True \<Rightarrow> (case getitem d name of
               Inl e \<Rightarrow> (Inl e, h)
             | Inr a \<Rightarrow> Setting_set h a v)))"

text \<open>
  \<^verbatim>\<open>__init__\<close>. The first assignment has the name \<^verbatim>\<open>settings\<close>, for which
  \<^verbatim>\<open>__setattr__\<close> makes no test, and stores the dictionary; the other two go through
  \<^verbatim>\<open>__setattr__\<close> as every assignment does.
\<close>

definition Config_init ::
    "registry \<Rightarrow> heap \<Rightarrow> string option \<Rightarrow> string option \<Rightarrow> string option \<Rightarrow>
     string list option \<Rightarrow> string list option \<Rightarrow> (py_error + config) \<times> heap" where
  "Config_init reg h description epilog app include exclude =
     (case make_settings reg app include exclude h of
        (Inl e, h1) \<Rightarrow> (Inl e, h1)
      | (Inr d, h1) \<Rightarrow>
          (case Config_setattr (Map.empty(''settings'' \<mapsto> SettingsDict d)) ''description''
                  (opt_val (or_opt description (Some ''Pulsar server''))) of
             Inl e \<Rightarrow> (Inl e, h1)
           | Inr c1 \<Rightarrow>
               (case Config_setattr c1 ''epilog'' (opt_val (or_opt epilog (Some ''Have fun!''))) of
                  Inl e \<Rightarrow> (Inl e, h1)
                | Inr c2 \<Rightarrow> (Inr c2, h1))))"

subsection \<open>The properties\<close>

definition Config_workers :: "heap \<Rightarrow> config \<Rightarrow> py_error + pyval" where
  "Config_workers h c = (case self_settings c of
       Inl e \<Rightarrow> Inl e
     | Inr d \<Rightarrow> (case getitem d ''workers'' of Inl e \<Rightarrow> Inl e | Inr a \<Rightarrow> Setting_get h a))"

text \<open>
  The class that \<^verbatim>\<open>load_worker_class\<close> returns belongs to the host; that its
  \<^verbatim>\<open>setup_class\<close> hook runs before it is returned changes nothing here.
\<close>

definition Config_worker_class :: "host \<Rightarrow> heap \<Rightarrow> config \<Rightarrow> py_error + pyval" where
  "Config_worker_class env h c = (case self_settings c of
       Inl e \<Rightarrow> Inl e
     | Inr d \<Rightarrow> (case getitem d ''worker_class'' of
           Inl e \<Rightarrow> Inl e
         | Inr a \<Rightarrow> (case Setting_get h a of
               Inl e \<Rightarrow> Inl e
             | Inr uri \<Rightarrow> host_load_worker_class env uri)))"

definition Config_address :: "host \<Rightarrow> heap \<Rightarrow> config \<Rightarrow> py_error + pyval" where
  "Config_address env h c = (case self_settings c of
       Inl e \<Rightarrow> Inl e
     | Inr d \<Rightarrow> (case getitem d ''bind'' of
           Inl e \<Rightarrow> Inl e
         | Inr a \<Rightarrow> (case Setting_get h a of
               Inl e \<Rightarrow> Inl e
             | Inr v \<Rightarrow> (case host_to_bytestring env v of
                   Inl e \<Rightarrow> Inl e
                 | Inr b \<Rightarrow> host_parse_address env b))))"

text \<open>The shape that \<^verbatim>\<open>uid\<close> and \<^verbatim>\<open>gid\<close> share.\<close>

definition Config_lookup_id ::
    "(pyval \<Rightarrow> py_error + pyval) \<Rightarrow> string \<Rightarrow> heap \<Rightarrow> config \<Rightarrow> py_error + pyval" where
  "Config_lookup_id resolve key h c = (case self_settings c of
       Inl e \<Rightarrow> Inl e
     | Inr d \<Rightarrow> (case dict_get d key of
           Inl e \<Rightarrow> Inl e
         | Inr None \<Rightarrow> Inr PNone
         | Inr (Some a) \<Rightarrow> (case Setting_get h a of Inl e \<Rightarrow> Inl e | Inr v \<Rightarrow> resolve v)))"

definition Config_uid :: "host \<Rightarrow> heap \<Rightarrow> config \<Rightarrow> py_error + pyval" where
  "Config_uid env h c = Config_lookup_id (host_get_uid env) ''user'' h c"

definition Config_gid :: "host \<Rightarrow> heap \<Rightarrow> config \<Rightarrow> py_error + pyval" where
  "Config_gid env h c = Config_lookup_id (host_get_gid env) ''group'' h c"

definition Config_proc_name :: "heap \<Rightarrow> config \<Rightarrow> py_error + pyval" where
  "Config_proc_name h c = (case self_settings c of
       Inl e \<Rightarrow> Inl e
     | Inr d \<Rightarrow> (case dict_get d ''proc_name'' of
           Inl e \<Rightarrow> Inl e
         | Inr pn \<Rightarrow>
             (case (case pn of None \<Rightarrow> Inr PNone | Some a \<Rightarrow> Setting_get h a) of
                Inl e \<Rightarrow> Inl e
              | Inr v \<Rightarrow>
                  if v \<noteq> PNone then Inr v
                  else (case dict_get d ''default_proc_name'' of
                          Inl e \<Rightarrow> Inl e
                        | Inr None \<Rightarrow> Inr PNone
                        | Inr (Some a) \<Rightarrow> Setting_get h a))))"

definition Config_property :: "host \<Rightarrow> heap \<Rightarrow> config \<Rightarrow> string \<Rightarrow> py_error + pyval" where
  "Config_property env h c name =
     (if name = ''worker_class'' then Config_worker_class env h c
      else if name = ''workers'' then Config_workers h c
      else if name = ''address'' then Config_address env h c
      else if name = ''uid'' then Config_uid env h c
      else if name = ''gid'' then Config_gid env h c
      else Config_proc_name h c)"

subsection \<open>Reading an attribute\<close>

text \<open>
  The expression \<^verbatim>\<open>cfg.name\<close>. A property that raises \<^verbatim>\<open>AttributeError\<close> hands the read
  over to \<^verbatim>\<open>__getattr__\<close>; any other exception of a property reaches the caller.
\<close>

definition Config_read ::
    "host \<Rightarrow> registry \<Rightarrow> heap \<Rightarrow> config \<Rightarrow> string \<Rightarrow> py_error + attr_value" where
  "Config_read env reg h c name = (case Config_class_attr name of
       Some Property \<Rightarrow> (case Config_property env h c name of
           Inl e \<Rightarrow> if exc_kind e = AttributeError then Config_getattr reg h c name else Inl e
         | Inr v \<Rightarrow> Inr (Val v))
     | Some Slot \<Rightarrow> Inr (ClassAttr name)
     | Some Member \<Rightarrow> (case c name of Some v \<Rightarrow> Inr v | None \<Rightarrow> Inr (ClassAttr name))
     | None \<Rightarrow> (case c name of Some v \<Rightarrow> Inr v | None \<Rightarrow> Config_getattr reg h c name))"

section \<open>The command line\<close>

text \<open>
  A parser is its description, its epilog and the list of the arguments added to it, each
  the positional arguments and the keyword arguments of the call that added it. The keyword dictionary keeps the order of
  insertion. \<open>KFmt\<close> is a format string with the values the source interpolates. What
  \<^verbatim>\<open>argparse\<close> and \<^verbatim>\<open>optparse\<close> do with an argument (a flag given twice, say) is theirs.
\<close>

datatype kwval = KV pyval | KT ptype | KFmt string "pyval list"

record argument =
  arg_args :: "string list"
  arg_kwargs :: "(string \<times> kwval) list"

record parser =
  p_description :: attr_value
  p_epilog :: attr_value
  p_arguments :: "argument list"

definition type_truthy :: "ptype option \<Rightarrow> bool" where
  "type_truthy t = (case t of None \<Rightarrow> False | Some TInt \<Rightarrow> True | Some (TName n) \<Rightarrow> n \<noteq> [])"

text \<open>\<^verbatim>\<open>Setting.add_argument\<close>: the call of \<^verbatim>\<open>parser.add_argument\<close> it makes, if any.\<close>

definition add_argument_call :: "setting \<Rightarrow> argument option" where
  "add_argument_call self =
     (let kwargs = (if type_truthy (s_type self) \<and> s_type self \<noteq> Some (TName ''string'')
                    then [(''type'', KT (the (s_type self)))] else [])
      in if truthy_opt (s_cli self) then
           (let kwargs = AList.update ''help''
                  (KFmt ''%s [%s]'' [opt_val (s_short self), s_default self])
                 (AList.update ''default'' (KV PNone)
                   (AList.update ''action''
                      (KV (opt_val (or_opt (s_action self) (Some ''store''))))
                     (AList.update ''dest'' (KV (opt_val (s_name self))) kwargs)));
                kwargs = (if map_of kwargs ''action'' \<noteq> Some (KV (PStr ''store''))
                          then AList.delete ''type'' kwargs else kwargs)
            in Some \<lparr>arg_args = the (s_cli self), arg_kwargs = kwargs\<rparr>)
         else if py_truthy (s_nargs self) \<and> truthy_opt (s_name self) then
           Some \<lparr>arg_args = [the (s_name self)],
                 arg_kwargs =
                   AList.update ''help'' (KV (opt_val (s_short self)))
                     (AList.update ''metavar'' (KV (opt_val (or_opt (s_meta self) None)))
                       (AList.update ''nargs'' (KV (s_nargs self)) kwargs))\<rparr>
         else None)"

definition Setting_add_argument :: "heap \<Rightarrow> nat \<Rightarrow> parser \<Rightarrow> py_error + parser" where
  "Setting_add_argument h a p =
     (if a < length h then
        (case add_argument_call (h ! a) of
           None \<Rightarrow> Inr p
         | Some arg \<Rightarrow> Inr (p\<lparr>p_arguments := p_arguments p @ [arg]\<rparr>))
      else Inl dangling)"

text \<open>
  \<^verbatim>\<open>sorted(keys, key=sorter)\<close> with keys \<^verbatim>\<open>(section, order)\<close>. Python 3 orders two strings
  and two integers, and raises \<^verbatim>\<open>TypeError\<close> when it has to order \<^verbatim>\<open>None\<close> and a string,
  which it has to as soon as both occur.
\<close>

text \<open>The key function is applied to keys of the dictionary only.\<close>

definition sorter :: "heap \<Rightarrow> settings_dict \<Rightarrow> string option \<Rightarrow> string option \<times> nat" where
  "sorter h m x = (case map_of m x of
       None \<Rightarrow> (None, 0)
     | Some a \<Rightarrow> (s_section (h ! a), s_order (h ! a)))"

definition py_sorted ::
    "('a \<Rightarrow> string option \<times> nat) \<Rightarrow> 'a list \<Rightarrow> py_error + 'a list" where
  "py_sorted key xs =
     (if (\<exists>x \<in> set xs. fst (key x) = None) \<and> (\<exists>y \<in> set xs. fst (key y) \<noteq> None)
      then Inl (Exc TypeError ''%s not supported between instances of NoneType and str''
                  [PStr ''<''])
      else Inr (sort_key key xs))"

fun add_arguments :: "heap \<Rightarrow> settings_dict \<Rightarrow> string option list \<Rightarrow> parser \<Rightarrow> py_error + parser" where
  "add_arguments h m [] p = Inr p"
| "add_arguments h m (k # ks) p =
     (case map_of m k of
        None \<Rightarrow> Inl (Exc KeyError ''%s'' [opt_val k])
      | Some a \<Rightarrow> (case Setting_add_argument h a p of
            Inl e \<Rightarrow> Inl e
          | Inr p1 \<Rightarrow> add_arguments h m ks p1))"

definition version_argument :: "host \<Rightarrow> argument" where
  "version_argument env =
     \<lparr>arg_args = [''--version''],
      arg_kwargs = [(''action'', KV (PStr ''version'')),
                    (''version'', KV (PStr (host_version env)))]\<rparr>"

definition Config_parser ::
    "host \<Rightarrow> registry \<Rightarrow> heap \<Rightarrow> config \<Rightarrow> py_error + parser" where
  "Config_parser env reg h c =
     (case Config_read env reg h c ''description'' of
        Inl e \<Rightarrow> Inl e
      | Inr description \<Rightarrow> (case Config_read env reg h c ''epilog'' of
            Inl e \<Rightarrow> Inl e
          | Inr epilog \<Rightarrow> (case self_settings c of
                Inl e \<Rightarrow> Inl e
              | Inr (SettingsDict m) \<Rightarrow>
                  if list_all (\<lambda>(k, a). a < length h) m then
                    (case py_sorted (sorter h m) (map fst m) of
                       Inl e \<Rightarrow> Inl e
                     | Inr ks \<Rightarrow> add_arguments h m ks
                           \<lparr>p_description = description, p_epilog = epilog,
                            p_arguments = [version_argument env]\<rparr>)
                  else Inl dangling
              | Inr other \<Rightarrow> Inl (Exc AttributeError ''object has no attribute %s'' [PStr ''keys'']))))"

subsection \<open>\<^verbatim>\<open>make_options\<close>\<close>

text \<open>
  The names bound in the module when one of its functions runs: the imports, the names of
  the star import, and the definitions of the module itself. A function that uses any
  other name, and no builtin has the name \<^verbatim>\<open>optparse\<close>, raises \<^verbatim>\<open>NameError\<close>.
\<close>

definition module_globals :: "host \<Rightarrow> string list" where
  "module_globals env =
     [''copy'', ''inspect'', ''argparse'', ''os'', ''textwrap'', ''types'', ''__version__'',
      ''SERVER_NAME'', ''system''] @ host_star_names env @
     [''__all__'', ''KNOWN_SETTINGS'', ''KNOWN_SETTINGS_SET'', ''def_start_server'',
      ''def_pre_exec'', ''default_process'', ''def_pre_request'', ''def_post_request'',
      ''def_worker_exit'', ''wrap_method'', ''make_settings'', ''make_options'', ''Config'',
      ''SettingMeta'', ''BaseSettings'', ''Setting'', ''validate_bool'', ''validate_pos_int'',
      ''validate_string'', ''validate_list'', ''validate_callable'', ''ConfigFile'', ''Workers'',
      ''Concurrency'', ''MaxRequests'', ''Timeout'', ''Keepalive'', ''HttpProxyServer'', ''Debug'',
      ''Daemon'', ''Pidfile'', ''User'', ''Group'', ''Umask'', ''TmpUploadDir'', ''Loglevel'',
      ''LogEvery'', ''LogConfig'', ''Procname'', ''DefaultProcName'', ''WhenReady'', ''Prefork'',
      ''Postfork'', ''PreExec'', ''PreRequest'', ''PostRequest'', ''WorkerExit'']"

text \<open>The option that one round of the loop of \<^verbatim>\<open>make_options\<close> hands to \<^verbatim>\<open>optparse\<close>.\<close>

definition make_option_call :: "setting \<Rightarrow> argument" where
  "make_option_call setting =
     (let kwargs =
            [(''dest'', KV (opt_val (s_name setting))),
             (''metavar'', KV (opt_val (or_opt (s_meta setting) None))),
             (''action'', KV (opt_val (or_opt (s_action setting) (Some ''store'')))),
             (''type'', (if type_truthy (s_type setting) then KT (the (s_type setting))
                        else KV (PStr ''string''))),
             (''default'', KV PNone),
             (''help'', KFmt ''%s [%s]'' [opt_val (s_short setting), s_default setting])];
          kwargs = (if map_of kwargs ''action'' \<noteq> Some (KV (PStr ''store''))
                    then AList.delete ''type'' kwargs else kwargs)
      in \<lparr>arg_args = the (s_cli setting), arg_kwargs = kwargs\<rparr>)"

text \<open>
  The loop runs over the keys of the dictionary in the order of the dictionary: the
  function \<^verbatim>\<open>sorter\<close> that \<^verbatim>\<open>make_options\<close> defines is not called.
\<close>

fun make_options_loop ::
    "host \<Rightarrow> heap \<Rightarrow> settings_dict \<Rightarrow> string option list \<Rightarrow> argument list \<Rightarrow>
     py_error + argument list" where
  "make_options_loop env h g [] opts = Inr opts"
| "make_options_loop env h g (k # keys) opts =
     (case map_of g k of
        None \<Rightarrow> Inl (Exc KeyError ''%s'' [opt_val k])
      | Some a \<Rightarrow>
          if a < length h then
            (if \<not> truthy_opt (s_cli (h ! a)) then make_options_loop env h g keys opts
             else if ''optparse'' \<in> set (module_globals env) then
               make_options_loop env h g keys (opts @ [make_option_call (h ! a)])
             else Inl (Exc NameError ''name %s is not defined'' [PStr ''optparse'']))
          else Inl dangling)"

definition make_options :: "host \<Rightarrow> registry \<Rightarrow> heap \<Rightarrow> (py_error + argument list) \<times> heap" where
  "make_options env reg h =
     (case make_settings reg None None (Some [''version'']) h of
        (Inl e, h1) \<Rightarrow> (Inl e, h1)
      | (Inr g_settings, h1) \<Rightarrow>
          (make_options_loop env h1 g_settings (map fst g_settings) [], h1))"

section \<open>Derived notions\<close>

text \<open>
  The definitions of this section are not functions of the source: they describe what its
  functions compute, and the lemmas below connect the two.

  \<open>init_state cls\<close> is the object that calling the class \<open>cls\<close> creates, or the exception of
  its \<^verbatim>\<open>__init__\<close>. \<open>kept\<close> is the test that the three \<^verbatim>\<open>continue\<close> statements of
  \<^verbatim>\<open>make_settings\<close> make together, and \<open>chosen P cs k\<close> the last class of \<open>cs\<close> with the name
  \<open>k\<close> that passes \<open>P\<close>.
\<close>

definition init_state :: "setting \<Rightarrow> py_error + setting" where
  "init_state cls =
     (case (if s_default cls \<noteq> PNone then
              (case s_validator cls of
                 None \<Rightarrow> Inl (Exc TypeError ''Invalid validator: %s'' [opt_val (s_name cls)])
               | Some validator \<Rightarrow> (case validator (s_default cls) of
                     Inl e \<Rightarrow> Inl e
                   | Inr v \<Rightarrow> Inr (cls\<lparr>s_value := v\<rparr>)))
            else Inr cls) of
        Inl e \<Rightarrow> Inl e
      | Inr s1 \<Rightarrow>
          Inr (s1\<lparr>s_short := or_opt (s_short s1) (s_desc s1),
                  s_desc := or_opt (s_desc s1) (or_opt (s_short s1) (s_desc s1))\<rparr>))"

definition kept :: "string option \<Rightarrow> string list option \<Rightarrow> string list \<Rightarrow> setting \<Rightarrow> bool" where
  "kept app include exclude s =
     (\<not> (truthy_opt (s_app s) \<and> s_app s \<noteq> app) \<and>
      \<not> (truthy_opt include \<and> \<not> name_in (s_name s) (the include) \<and> \<not> truthy_opt (s_app s)) \<and>
      \<not> name_in (s_name s) exclude)"

definition chosen :: "(setting \<Rightarrow> bool) \<Rightarrow> setting list \<Rightarrow> string option \<Rightarrow> setting option" where
  "chosen P cs k =
     (case filter (\<lambda>s. s_name s = k \<and> P s) cs of
        [] \<Rightarrow> None
      | x # xs \<Rightarrow> Some (last (x # xs)))"

text \<open>The class that the metaclass registers for a body when \<open>n\<close> classes are registered.\<close>

definition registered_class :: "host \<Rightarrow> nat \<Rightarrow> class_body \<Rightarrow> setting" where
  "registered_class env n body =
     fmt_desc env
       ((super_new body)
          \<lparr>s_order := n,
           s_validator := Some (wrap_method
              (case b_validator body of None \<Rightarrow> validate_string | Some f \<Rightarrow> f))\<rparr>)
       (the (b_desc body))"

text \<open>The dictionary of settings that a \<^verbatim>\<open>Config\<close> holds, and the objects in it.\<close>

definition bound_settings :: "config \<Rightarrow> settings_dict" where
  "bound_settings c = (case c ''settings'' of Some (SettingsDict m) \<Rightarrow> m | _ \<Rightarrow> [])"

text \<open>
  A host for the examples: the star import binds the five names that the module uses from
  \<^verbatim>\<open>py2py3\<close>, the help texts of the model have no indentation to remove, and the functions
  of the system answer with their argument.
\<close>

definition example_host :: host where
  "example_host =
     \<lparr>host_SERVER_NAME = ''pulsar'', host_version = ''0.1'',
      host_star_names = [''int_type'', ''string_type'', ''is_bytes_or_string'', ''to_string'',
                         ''to_bytestring''],
      host_dedent = (\<lambda>s. s),
      host_load_worker_class = Inr, host_parse_address = Inr, host_get_uid = Inr,
      host_get_gid = Inr, host_to_bytestring = Inr\<rparr>"

text \<open>The value of a numeral: the digits \<open>ds\<close> read in the base \<open>b\<close>.\<close>

definition digits_value :: "nat \<Rightarrow> string \<Rightarrow> nat" where
  "digits_value b ds = foldl (\<lambda>acc c. acc * b + the (digit_value c)) 0 ds"

definition prefix_base :: "string \<Rightarrow> nat" where
  "prefix_base p =
     (if p \<in> set [''0x'', ''0X''] then 16 else if p \<in> set [''0o'', ''0O''] then 8 else 2)"

text \<open>
  A failure identifies a value when the value is among those its message is made of.
\<close>

definition identifies :: "py_error \<Rightarrow> pyval \<Rightarrow> bool" where
  "identifies e v = (v \<in> set (exc_args e))"

text \<open>A store with one object, an instance of the class \<^verbatim>\<open>Debug\<close> of the module.\<close>

definition debug_heap :: heap where
  "debug_heap = snd (Setting_new (registered_class example_host 7 Debug) [])"

text \<open>A body that the metaclass registers.\<close>

definition registrable :: "class_body \<Rightarrow> bool" where
  "registrable body = (b_parents body \<and> \<not> b_virtual body \<and> b_desc body \<noteq> None)"

text \<open>
  The registry after the import of the module: its classes in the order of the file, and
  their names.
\<close>

definition module_classes :: "host \<Rightarrow> setting list" where
  "module_classes env =
     [registered_class env 0 ConfigFile, registered_class env 1 Workers,
      registered_class env 2 Concurrency, registered_class env 3 MaxRequests,
      registered_class env 4 Timeout, registered_class env 5 Keepalive,
      registered_class env 6 HttpProxyServer, registered_class env 7 Debug,
      registered_class env 8 Daemon, registered_class env 9 Pidfile,
      registered_class env 10 User, registered_class env 11 Group,
      registered_class env 12 Umask, registered_class env 13 TmpUploadDir,
      registered_class env 14 Loglevel, registered_class env 15 LogEvery,
      registered_class env 16 LogConfig, registered_class env 17 Procname,
      registered_class env 18 (DefaultProcName env), registered_class env 19 WhenReady,
      registered_class env 20 Prefork, registered_class env 21 Postfork,
      registered_class env 22 PreExec, registered_class env 23 PreRequest,
      registered_class env 24 PostRequest, registered_class env 25 WorkerExit]"

definition module_names :: "string set" where
  "module_names =
     {''config'', ''workers'', ''concurrency'', ''max_requests'', ''timeout'', ''keepalive'',
      ''http_proxy'', ''debug'', ''daemon'', ''pidfile'', ''user'', ''group'', ''umask'',
      ''tmp_upload_dir'', ''loglevel'', ''logevery'', ''logconfig'', ''proc_name'',
      ''default_proc_name'', ''when_ready'', ''pre_fork'', ''post_fork'', ''pre_exec'',
      ''pre_request'', ''post_request'', ''worker_exit''}"

text \<open>
  The filter of the registry lookup in the words of the specification: the application of
  the descriptor is unset or is the requested one; if \<open>include\<close> is given, the name is in it
  or the descriptor has an application; the name is not in \<open>exclude\<close>. \<open>selected\<close> is
  the same filter with two changes: an application that is the empty string counts as
  unset, and an \<open>include\<close> that is empty counts as not given.
\<close>

definition selected_as_stated ::
    "string option \<Rightarrow> string list option \<Rightarrow> string list option \<Rightarrow> setting \<Rightarrow> bool" where
  "selected_as_stated app include exclude s =
     ((s_app s = None \<or> s_app s = app) \<and>
      (include \<noteq> None \<longrightarrow> name_in (s_name s) (the include) \<or> s_app s \<noteq> None) \<and>
      \<not> name_in (s_name s) (case exclude of None \<Rightarrow> [] | Some xs \<Rightarrow> xs))"

definition selected ::
    "string option \<Rightarrow> string list option \<Rightarrow> string list option \<Rightarrow> setting \<Rightarrow> bool" where
  "selected app include exclude s =
     ((s_app s = None \<or> s_app s = Some [] \<or> s_app s = app) \<and>
      (include \<noteq> None \<and> include \<noteq> Some [] \<longrightarrow>
         name_in (s_name s) (the include) \<or> (s_app s \<noteq> None \<and> s_app s \<noteq> Some [])) \<and>
      \<not> name_in (s_name s) (case exclude of None \<Rightarrow> [] | Some xs \<Rightarrow> xs))"

text \<open>Two lookups in the registry of the module, on an empty store.\<close>

definition include_nothing :: "(py_error + settings_dict) \<times> heap" where
  "include_nothing = make_settings (module_registry example_host) None (Some []) None []"

definition include_workers :: "(py_error + settings_dict) \<times> heap" where
  "include_workers =
     make_settings (module_registry example_host) None (Some [''workers'', ''debug''])
       (Some [''debug'']) []"

text \<open>
  A second class with the name \<^verbatim>\<open>timeout\<close>, declared after the import of the module, and a
  lookup in the registry after it.
\<close>

definition Timeout2 :: class_body where
  "Timeout2 = Timeout\<lparr>b_default := PInt 60\<rparr>"

definition twice_timeout :: "(py_error + setting) \<times> registry" where
  "twice_timeout = SettingMeta_new example_host Timeout2 (module_registry example_host)"

definition lookup_twice_timeout :: "(py_error + settings_dict) \<times> heap" where
  "lookup_twice_timeout = make_settings (snd twice_timeout) None None None []"

text \<open>
  Three \<^verbatim>\<open>Config\<close> objects built on an empty store after the import of the module: one
  that excludes \<^verbatim>\<open>workers\<close>, one that excludes \<^verbatim>\<open>debug\<close>, and one without a filter.
\<close>

definition config_without_workers :: "(py_error + config) \<times> heap" where
  "config_without_workers =
     Config_init (module_registry example_host) [] None None None None (Some [''workers''])"

definition config_without_debug :: "(py_error + config) \<times> heap" where
  "config_without_debug =
     Config_init (module_registry example_host) [] None None None None (Some [''debug''])"

definition default_config :: "(py_error + config) \<times> heap" where
  "default_config = Config_init (module_registry example_host) [] None None None None None"

text \<open>
  Two more \<^verbatim>\<open>Config\<close> objects of the module: one that includes \<^verbatim>\<open>logconfig\<close> alone, a
  setting without flags, and one that includes \<^verbatim>\<open>workers\<close> and \<^verbatim>\<open>debug\<close>.
\<close>

definition config_logconfig :: "(py_error + config) \<times> heap" where
  "config_logconfig =
     Config_init (module_registry example_host) [] None None None (Some [''logconfig'']) None"

definition config_workers_debug :: "(py_error + config) \<times> heap" where
  "config_workers_debug =
     Config_init (module_registry example_host) [] None None None
       (Some [''workers'', ''debug'']) None"

text \<open>
  The scenario of two callers: a second \<^verbatim>\<open>Config\<close> built after the first, \<^verbatim>\<open>timeout\<close> set
  to 10 on the first and then to 60 on the second, and a third \<^verbatim>\<open>Config\<close> built after
  that.
\<close>

definition second_config :: "(py_error + config) \<times> heap" where
  "second_config =
     Config_init (module_registry example_host) (snd default_config) None None None None None"

definition first_set :: "(py_error + unit) \<times> heap" where
  "first_set =
     Config_set (snd second_config) (projr (fst default_config)) ''timeout'' (PInt 10)"

definition second_set :: "(py_error + unit) \<times> heap" where
  "second_set = Config_set (snd first_set) (projr (fst second_config)) ''timeout'' (PInt 60)"

definition third_config :: "(py_error + config) \<times> heap" where
  "third_config =
     Config_init (module_registry example_host) (snd second_set) None None None None None"

section \<open>Properties\<close>

subsection \<open>Creating settings\<close>

lemma Setting_new_eq:
  "Setting_new cls h = (case init_state cls of
       Inl e \<Rightarrow> (Inl e, h @ [cls])
     | Inr s \<Rightarrow> (Inr (length h), h @ [s]))"
  by (simp add: Setting_new_def Setting_init_def Setting_set_def init_state_def Let_def
      split: option.splits sum.splits)

lemma init_state_fields:
  "init_state cls = Inr s \<Longrightarrow>
     s_name s = s_name cls \<and> s_app s = s_app cls \<and> s_cli s = s_cli cls \<and>
     s_section s = s_section cls \<and> s_order s = s_order cls \<and>
     s_validator s = s_validator cls \<and> s_default s = s_default cls \<and>
     s_nargs s = s_nargs cls"
  by (auto simp: init_state_def split: if_splits option.splits sum.splits)

lemma chosen_Cons:
  "chosen P (s # cs) k =
     (case chosen P cs k of
        Some t \<Rightarrow> Some t
      | None \<Rightarrow> if s_name s = k \<and> P s then Some s else None)"
  by (auto simp: chosen_def split: list.splits)

lemma chosen_Nil: "chosen P [] k = None"
  by (simp add: chosen_def)

lemma chosen_SomeD: "chosen P cs k = Some s \<Longrightarrow> s \<in> set cs \<and> s_name s = k \<and> P s"
proof (induction cs)
  case Nil
  then show ?case by (simp add: chosen_Nil)
next
  case (Cons c cs)
  then show ?case by (auto simp: chosen_Cons split: option.splits if_splits)
qed

lemma chosen_None_iff: "chosen P cs k = None \<longleftrightarrow> \<not> (\<exists>s \<in> set cs. s_name s = k \<and> P s)"
  by (induction cs) (auto simp: chosen_Nil chosen_Cons split: option.splits)

text \<open>One round of the loop of \<^verbatim>\<open>make_settings\<close>.\<close>

lemma loop_step:
  "make_settings_loop (s # rest) app inc exc d h =
     (case init_state s of
        Inl e \<Rightarrow> (Inl e, h @ [s])
      | Inr i \<Rightarrow>
          if kept app inc exc s
          then make_settings_loop rest app inc exc
                 (AList.update (s_name s) (Suc (length h)) d) (h @ [i, i])
          else make_settings_loop rest app inc exc d (h @ [i]))"
proof (cases "init_state s")
  case (Inl e)
  then show ?thesis by (simp add: Setting_new_eq)
next
  case (Inr i)
  from init_state_fields [OF Inr] have f: "s_name i = s_name s" "s_app i = s_app s"
    by simp_all
  show ?thesis
    by (simp add: Setting_new_eq Inr Setting_copy_def kept_def Let_def f)
qed

declare make_settings_loop.simps(2) [simp del]

text \<open>
  What the loop returns: the objects that were there are untouched, and a key of the
  dictionary maps to a new object, created from the last class of that name that is kept;
  a key for which no class is kept is as it was.
\<close>

lemma loop_inv:
  "make_settings_loop cs app inc exc d h = (Inr d', h') \<Longrightarrow>
     length h \<le> length h' \<and> take (length h) h' = h \<and>
     (\<forall>k. case chosen (kept app inc exc) cs k of
            None \<Rightarrow> map_of d' k = map_of d k
          | Some s \<Rightarrow> (\<exists>a. map_of d' k = Some a \<and> length h \<le> a \<and> a < length h' \<and>
                         init_state s = Inr (h' ! a)))"
proof (induction cs arbitrary: d h)
  case Nil
  then show ?case by (simp add: chosen_def)
next
  case (Cons s rest)
  from Cons.prems obtain i where i: "init_state s = Inr i"
    by (cases "init_state s") (auto simp: loop_step)
  show ?case
  proof (cases "kept app inc exc s")
    case False
    with Cons.prems i have run: "make_settings_loop rest app inc exc d (h @ [i]) = (Inr d', h')"
      by (simp add: loop_step)
    note IH = Cons.IH [OF run]
    from IH have len: "length (h @ [i]) \<le> length h'"
      and tk: "take (length (h @ [i])) h' = h @ [i]"
      by blast+
    from tk have tk0: "take (length h) h' = h"
      by (metis append_eq_conv_conj length_append take_take min.absorb1 le_add1)
    show ?thesis
    proof (intro conjI allI)
      show "length h \<le> length h'" using len by simp
      show "take (length h) h' = h" by (rule tk0)
      fix k
      from IH have "case chosen (kept app inc exc) rest k of
            None \<Rightarrow> map_of d' k = map_of d k
          | Some s \<Rightarrow> (\<exists>a. map_of d' k = Some a \<and> length (h @ [i]) \<le> a \<and> a < length h' \<and>
                         init_state s = Inr (h' ! a))" by blast
      then show "case chosen (kept app inc exc) (s # rest) k of
            None \<Rightarrow> map_of d' k = map_of d k
          | Some s \<Rightarrow> (\<exists>a. map_of d' k = Some a \<and> length h \<le> a \<and> a < length h' \<and>
                         init_state s = Inr (h' ! a))"
        using False by (auto simp: chosen_Cons split: option.splits)
    qed
  next
    case True
    with Cons.prems i have run:
      "make_settings_loop rest app inc exc (AList.update (s_name s) (Suc (length h)) d)
         (h @ [i, i]) = (Inr d', h')"
      by (simp add: loop_step)
    note IH = Cons.IH [OF run]
    from IH have len: "length (h @ [i, i]) \<le> length h'"
      and tk: "take (length (h @ [i, i])) h' = h @ [i, i]"
      by blast+
    from tk have tk0: "take (length h) h' = h"
      by (metis append_eq_conv_conj take_take min.absorb1 le_add1 length_append)
    have "h' ! Suc (length h) = take (length (h @ [i, i])) h' ! Suc (length h)"
      by simp
    also have "\<dots> = i"
      by (simp only: tk) (simp add: nth_append)
    finally have nth: "h' ! Suc (length h) = i" .
    show ?thesis
    proof (intro conjI allI)
      show "length h \<le> length h'" using len by simp
      show "take (length h) h' = h" by (rule tk0)
      fix k
      from IH have *: "case chosen (kept app inc exc) rest k of
            None \<Rightarrow> map_of d' k = map_of (AList.update (s_name s) (Suc (length h)) d) k
          | Some s \<Rightarrow> (\<exists>a. map_of d' k = Some a \<and> length (h @ [i, i]) \<le> a \<and> a < length h' \<and>
                         init_state s = Inr (h' ! a))" by blast
      show "case chosen (kept app inc exc) (s # rest) k of
            None \<Rightarrow> map_of d' k = map_of d k
          | Some s \<Rightarrow> (\<exists>a. map_of d' k = Some a \<and> length h \<le> a \<and> a < length h' \<and>
                         init_state s = Inr (h' ! a))"
      proof (cases "chosen (kept app inc exc) rest k")
        case (Some t)
        with * show ?thesis by (auto simp: chosen_Cons)
      next
        case None
        with * have m: "map_of d' k = map_of (AList.update (s_name s) (Suc (length h)) d) k"
          by simp
        show ?thesis
        proof (cases "s_name s = k")
          case True
          with m have "map_of d' k = Some (Suc (length h))" by (simp add: update_conv')
          moreover have "Suc (length h) < length h'" using len by simp
          ultimately show ?thesis using None True \<open>kept app inc exc s\<close> i nth
            by (auto simp: chosen_Cons)
        next
          case False
          with m have "map_of d' k = map_of d k" by (simp add: update_conv')
          then show ?thesis using None False by (simp add: chosen_Cons)
        qed
      qed
    qed
  qed
qed

lemma loop_ok:
  "(\<forall>s \<in> set cs. \<exists>i. init_state s = Inr i) \<Longrightarrow>
     \<exists>d' h'. make_settings_loop cs app inc exc d h = (Inr d', h')"
  by (induction cs arbitrary: d h) (auto simp: loop_step)

lemma loop_keys:
  "make_settings_loop cs app inc exc d h = (Inr d', h') \<Longrightarrow>
     (distinct (map fst d) \<longrightarrow> distinct (map fst d')) \<and>
     fst ` set d' = fst ` set d \<union> s_name ` {s \<in> set cs. kept app inc exc s}"
proof (induction cs arbitrary: d h)
  case Nil
  then show ?case by simp
next
  case (Cons s rest)
  from Cons.prems obtain i where i: "init_state s = Inr i"
    by (cases "init_state s") (auto simp: loop_step)
  show ?case
  proof (cases "kept app inc exc s")
    case False
    with Cons.prems i Cons.IH [of d "h @ [i]"] show ?thesis by (auto simp: loop_step)
  next
    case True
    with Cons.prems i Cons.IH [of "AList.update (s_name s) (Suc (length h)) d" "h @ [i, i]"]
    show ?thesis by (auto simp: loop_step distinct_update dom_update image_iff)
  qed
qed

subsection \<open>Integer literals\<close>

lemma digit_value_underscore: "digit_value (CHR ''_'') = None"
  by code_simp

lemma is_digit_not_underscore: "is_digit b c \<Longrightarrow> c \<noteq> CHR ''_''"
  by (auto simp: is_digit_def digit_value_underscore)

lemma scan_digits_all:
  "\<forall>c \<in> set ds. is_digit b c \<Longrightarrow> prev \<noteq> CHR ''_'' \<Longrightarrow>
     scan_digits b prev acc n ds =
       Some (foldl (\<lambda>acc c. acc * b + the (digit_value c)) acc ds, n + length ds, [])"
  by (induction ds arbitrary: prev acc n) (auto dest: is_digit_not_underscore)

lemma int_base0_prefixed:
  assumes p: "p \<in> set [''0x'', ''0X'', ''0o'', ''0O'', ''0b'', ''0B'']"
    and ds: "ds \<noteq> []" "\<forall>c \<in> set ds. is_digit (prefix_base p) c"
  shows "int_base0 (p @ ds) = Some (int (digits_value (prefix_base p) ds))"
proof -
  from ds obtain c cs where dc: "ds = c # cs" by (cases ds) auto
  with ds have c: "c \<noteq> CHR ''_''" by (auto dest: is_digit_not_underscore)
  have sp: "split_base (p @ ds) = (prefix_base p, False, ds)"
    using p c by (auto simp: split_base_def prefix_base_def dc)
  have dw: "dropWhile py_isspace (p @ ds) = p @ ds"
    using p by (auto simp: py_isspace_def)
  have sg: "split_sign (p @ ds) = (False, p @ ds)"
    using p by (auto simp: split_sign_def)
  have sc: "scan_digits (prefix_base p) (CHR 0x00) 0 0 ds
              = Some (digits_value (prefix_base p) ds, length ds, [])"
    using scan_digits_all [OF ds(2), of "CHR 0x00" 0 0] by (simp add: digits_value_def)
  have hd: "hd ds \<noteq> CHR ''_''" using c by (simp add: dc)
  show ?thesis
    using ds(1) hd by (simp add: int_base0_def dw sg sp sc)
qed

text \<open>
  C8. \<^verbatim>\<open>validate_pos_int\<close> fails on the string \<^verbatim>\<open>"-1"\<close> and returns 16 for the string
  \<^verbatim>\<open>"0x10"\<close>. It reads a numeral with any of the base prefixes: a prefix followed by one
  or more digits of its base gives the value of the digits in that base. And it fails
  whenever the conversion gives a negative integer.
\<close>

theorem validate_pos_int_literals:
  "validate_pos_int (PStr ''-1'') =
     Inl (Exc ValueError ''Value must be positive: %s'' [PInt (- 1)]) \<and>
   validate_pos_int (PStr ''0x10'') = Inr (PInt 16) \<and>
   (\<forall>p ds. p \<in> set [''0x'', ''0X'', ''0o'', ''0O'', ''0b'', ''0B''] \<and> ds \<noteq> [] \<and>
        (\<forall>c \<in> set ds. is_digit (prefix_base p) c) \<longrightarrow>
      validate_pos_int (PStr (p @ ds)) = Inr (PInt (int (digits_value (prefix_base p) ds)))) \<and>
   (\<forall>val n. to_int val = Inr n \<and> n < 0 \<longrightarrow>
      validate_pos_int val = Inl (Exc ValueError ''Value must be positive: %s'' [PInt n]))"
proof (intro conjI allI impI)
  have "int_base0 ''-1'' = Some (- 1)" by code_simp
  then show "validate_pos_int (PStr ''-1'') =
      Inl (Exc ValueError ''Value must be positive: %s'' [PInt (- 1)])"
    by (simp add: validate_pos_int_def to_int_def)
  have "int_base0 ''0x10'' = Some 16" by code_simp
  then show "validate_pos_int (PStr ''0x10'') = Inr (PInt 16)"
    by (simp add: validate_pos_int_def to_int_def)
next
  fix p ds
  assume "p \<in> set [''0x'', ''0X'', ''0o'', ''0O'', ''0b'', ''0B''] \<and> ds \<noteq> [] \<and>
        (\<forall>c \<in> set ds. is_digit (prefix_base p) c)"
  then have "int_base0 (p @ ds) = Some (int (digits_value (prefix_base p) ds))"
    using int_base0_prefixed by blast
  then show "validate_pos_int (PStr (p @ ds)) =
      Inr (PInt (int (digits_value (prefix_base p) ds)))"
    by (simp add: validate_pos_int_def to_int_def)
next
  fix val n
  assume "to_int val = Inr n \<and> n < 0"
  then show "validate_pos_int val =
      Inl (Exc ValueError ''Value must be positive: %s'' [PInt n])"
    by (simp add: validate_pos_int_def)
qed

theorem validate_pos_int_literals_witness:
  "validate_pos_int (PStr ''0b101'') = Inr (PInt 5) \<and>
   validate_pos_int (PInt (- 3)) =
     Inl (Exc ValueError ''Value must be positive: %s'' [PInt (- 3)])"
proof -
  have d: "\<forall>c \<in> set ''101''. is_digit (prefix_base ''0b'') c"
    by (simp add: is_digit_def digit_value_def prefix_base_def upt_rec)
  have p: "''0b'' \<in> set [''0x'', ''0X'', ''0o'', ''0O'', ''0b'', ''0B'']" by simp
  have t: "to_int (PInt (- 3)) = Inr (- 3) \<and> (- 3 :: int) < 0" by (simp add: to_int_def)
  from validate_pos_int_literals have
    a: "validate_pos_int (PStr (''0b'' @ ''101'')) =
          Inr (PInt (int (digits_value (prefix_base ''0b'') ''101'')))"
    using p d by blast
  from validate_pos_int_literals t have
    b: "validate_pos_int (PInt (- 3)) =
          Inl (Exc ValueError ''Value must be positive: %s'' [PInt (- 3)])"
    by blast
  have v: "digits_value (prefix_base ''0b'') ''101'' = 5"
    by (simp add: digits_value_def prefix_base_def digit_value_def upt_rec)
  from a b v show ?thesis by simp
qed

subsection \<open>Setting a value\<close>

lemma registered_class_fields:
  "s_name (registered_class env n body) = b_name body"
  "s_app (registered_class env n body) = b_app body"
  "s_section (registered_class env n body) = b_section body"
  "s_cli (registered_class env n body) = b_cli body"
  "s_type (registered_class env n body) = b_type body"
  "s_meta (registered_class env n body) = b_meta body"
  "s_action (registered_class env n body) = b_action body"
  "s_default (registered_class env n body) = b_default body"
  "s_nargs (registered_class env n body) = b_nargs body"
  "s_order (registered_class env n body) = n"
  "s_value (registered_class env n body) = PNone"
  "s_validator (registered_class env n body) =
     Some (wrap_method (case b_validator body of None \<Rightarrow> validate_string | Some f \<Rightarrow> f))"
  by (simp_all add: registered_class_def fmt_desc_def super_new_def Let_def)

lemma init_state_value:
  "init_state cls = Inr s \<Longrightarrow> s_validator cls = Some f \<Longrightarrow>
     s_value s = (if s_default cls = PNone then s_value cls else projr (f (s_default cls)))"
  by (auto simp: init_state_def split: if_splits sum.splits)

lemma debug_heap_eq:
  "length debug_heap = 1 \<and> s_name (debug_heap ! 0) = Some ''debug'' \<and>
   s_validator (debug_heap ! 0) = Some (wrap_method validate_bool) \<and>
   s_value (debug_heap ! 0) = PBool False"
  by (simp add: debug_heap_def Setting_new_eq init_state_def registered_class_fields
      Debug_def Setting_attrs_def wrap_method_def validate_bool_def)

lemma validate_bool_yes:
  "validate_bool (PStr ''yes'') = Inl (Exc ValueError ''Invalid boolean: %s'' [PStr ''yes''])"
  by (simp add: validate_bool_def py_strip_def py_lower_def py_lower_char_def py_isspace_def)

text \<open>
  The claim C4 as it is written fails for the setting \<^verbatim>\<open>debug\<close> and the input \<^verbatim>\<open>"yes"\<close>: the
  failure that \<^verbatim>\<open>set\<close> raises is the one of \<^verbatim>\<open>validate_bool\<close>, made of the input alone; the
  name of the setting is not in it.
\<close>

theorem Setting_set_anonymous_failure:
  "fst (Setting_set debug_heap 0 (PStr ''yes'')) =
     Inl (Exc ValueError ''Invalid boolean: %s'' [PStr ''yes'']) \<and>
   s_name (debug_heap ! 0) = Some ''debug'' \<and>
   \<not> identifies (Exc ValueError ''Invalid boolean: %s'' [PStr ''yes'']) (PStr ''debug'')"
  using debug_heap_eq validate_bool_yes
  by (simp add: Setting_set_def wrap_method_def identifies_def)

text \<open>
  C4, amended. For every Setting object and every raw input: when the validator of the
  object is not callable, \<^verbatim>\<open>set\<close> raises the failure that names the setting and stores
  nothing. Otherwise it runs the validator on the raw input. If the validator succeeds,
  its output replaces the stored value. If it fails, the stored value stays as it was and
  the failure raised is the failure of the validator, as the validator made it. The
  failures of \<^verbatim>\<open>validate_bool\<close>, \<^verbatim>\<open>validate_string\<close> and \<^verbatim>\<open>validate_list\<close> identify the raw
  input.
\<close>

theorem Setting_set_outcome:
  assumes "a < length h"
  shows "(s_validator (h ! a) = None \<longrightarrow>
            Setting_set h a raw =
              (Inl (Exc TypeError ''Invalid validator: %s'' [opt_val (s_name (h ! a))]), h)) \<and>
         (\<forall>validator v. s_validator (h ! a) = Some validator \<and> validator raw = Inr v \<longrightarrow>
            Setting_set h a raw = (Inr (), h[a := (h ! a)\<lparr>s_value := v\<rparr>]) \<and>
            Setting_get (snd (Setting_set h a raw)) a = Inr v) \<and>
         (\<forall>validator e. s_validator (h ! a) = Some validator \<and> validator raw = Inl e \<longrightarrow>
            Setting_set h a raw = (Inl e, h) \<and>
            Setting_get (snd (Setting_set h a raw)) a = Setting_get h a) \<and>
         (\<forall>e. validate_bool raw = Inl e \<or> validate_string raw = Inl e \<or>
                validate_list raw = Inl e \<longrightarrow> identifies e raw)"
  using assms
  by (auto simp: Setting_set_def Setting_get_def identifies_def validate_bool_def
      validate_string_def validate_list_def split: pyval.splits if_splits)

theorem Setting_set_outcome_witness:
  "Setting_set debug_heap 0 (PStr '' TRUE'') =
     (Inr (), debug_heap[0 := (debug_heap ! 0)\<lparr>s_value := PBool True\<rparr>]) \<and>
   Setting_set debug_heap 0 (PStr ''yes'') =
     (Inl (Exc ValueError ''Invalid boolean: %s'' [PStr ''yes'']), debug_heap) \<and>
   identifies (Exc ValueError ''Invalid boolean: %s'' [PStr ''yes'']) (PStr ''yes'')"
proof -
  have l: "0 < length debug_heap" using debug_heap_eq by simp
  have v: "s_validator (debug_heap ! 0) = Some (wrap_method validate_bool)"
    using debug_heap_eq by simp
  have t: "wrap_method validate_bool (PStr '' TRUE'') = Inr (PBool True)"
    by (simp add: wrap_method_def validate_bool_def py_strip_def py_lower_def
        py_lower_char_def py_isspace_def)
  have y: "wrap_method validate_bool (PStr ''yes'') =
      Inl (Exc ValueError ''Invalid boolean: %s'' [PStr ''yes''])"
    using validate_bool_yes by (simp add: wrap_method_def)
  from Setting_set_outcome [OF l, of "PStr '' TRUE''"] v t
  have a: "Setting_set debug_heap 0 (PStr '' TRUE'') =
     (Inr (), debug_heap[0 := (debug_heap ! 0)\<lparr>s_value := PBool True\<rparr>])" by blast
  from Setting_set_outcome [OF l, of "PStr ''yes''"] v y
  have b: "Setting_set debug_heap 0 (PStr ''yes'') =
     (Inl (Exc ValueError ''Invalid boolean: %s'' [PStr ''yes'']), debug_heap)" by blast
  from Setting_set_outcome [OF l, of "PStr ''yes''"] validate_bool_yes
  have c: "identifies (Exc ValueError ''Invalid boolean: %s'' [PStr ''yes'']) (PStr ''yes'')"
    by blast
  from a b c show ?thesis by simp
qed

subsection \<open>The registry of the module\<close>

lemmas module_body_defs =
  ConfigFile_def Workers_def Concurrency_def MaxRequests_def Timeout_def Keepalive_def
  HttpProxyServer_def Debug_def Daemon_def Pidfile_def User_def Group_def Umask_def
  TmpUploadDir_def Loglevel_def LogEvery_def LogConfig_def Procname_def
  DefaultProcName_def WhenReady_def Prefork_def Postfork_def PreExec_def PreRequest_def
  PostRequest_def WorkerExit_def BaseSettings_def Setting_def Setting_attrs_def

lemma SettingMeta_new_registered:
  "registrable body \<Longrightarrow>
     SettingMeta_new env body reg =
       (Inr (registered_class env (length (KNOWN_SETTINGS reg)) body),
        \<lparr>KNOWN_SETTINGS =
           KNOWN_SETTINGS reg @ [registered_class env (length (KNOWN_SETTINGS reg)) body],
         KNOWN_SETTINGS_SET =
           (case b_name body of
              None \<Rightarrow> KNOWN_SETTINGS_SET reg
            | Some n \<Rightarrow> if n \<noteq> [] then insert n (KNOWN_SETTINGS_SET reg)
                       else KNOWN_SETTINGS_SET reg)\<rparr>)"
  by (auto simp: SettingMeta_new_def registrable_def registered_class_def Let_def fmt_desc_def
      super_new_def)

lemma module_body_flags:
  "list_all registrable
     [ConfigFile, Workers, Concurrency, MaxRequests, Timeout, Keepalive, HttpProxyServer,
      Debug, Daemon, Pidfile, User, Group, Umask, TmpUploadDir, Loglevel, LogEvery, LogConfig,
      Procname, DefaultProcName env, WhenReady, Prefork, Postfork, PreExec, PreRequest,
      PostRequest, WorkerExit]"
  by (simp add: module_body_defs registrable_def)

lemma module_body_names:
  "map b_name
     [ConfigFile, Workers, Concurrency, MaxRequests, Timeout, Keepalive, HttpProxyServer,
      Debug, Daemon, Pidfile, User, Group, Umask, TmpUploadDir, Loglevel, LogEvery, LogConfig,
      Procname, DefaultProcName env, WhenReady, Prefork, Postfork, PreExec, PreRequest,
      PostRequest, WorkerExit] =
     [Some ''config'', Some ''workers'', Some ''concurrency'', Some ''max_requests'',
      Some ''timeout'', Some ''keepalive'', Some ''http_proxy'', Some ''debug'',
      Some ''daemon'', Some ''pidfile'', Some ''user'', Some ''group'', Some ''umask'',
      Some ''tmp_upload_dir'', Some ''loglevel'', Some ''logevery'', Some ''logconfig'',
      Some ''proc_name'', Some ''default_proc_name'', Some ''when_ready'', Some ''pre_fork'',
      Some ''post_fork'', Some ''pre_exec'', Some ''pre_request'', Some ''post_request'',
      Some ''worker_exit'']"
  by (simp add: module_body_defs)

lemma SettingMeta_new_base:
  "SettingMeta_new env BaseSettings reg = (Inr (super_new BaseSettings), reg)"
  "SettingMeta_new env Setting reg = (Inr (super_new Setting), reg)"
  by (simp_all add: SettingMeta_new_def BaseSettings_def Setting_def Setting_attrs_def)

lemma module_import_eq:
  "module_import env =
     Inr \<lparr>KNOWN_SETTINGS = module_classes env, KNOWN_SETTINGS_SET = module_names\<rparr>"
  using module_body_flags [of env] module_body_names [of env]
  unfolding module_import_def module_bodies_def empty_registry_def module_classes_def
    module_names_def
  by (simp add: SettingMeta_new_base SettingMeta_new_registered insert_commute
      eval_nat_numeral)

lemma module_registry_eq:
  "KNOWN_SETTINGS (module_registry env) = module_classes env"
  "KNOWN_SETTINGS_SET (module_registry env) = module_names"
  by (simp_all add: module_registry_def module_import_eq)

lemmas validator_defs =
  wrap_method_def validate_string_def validate_bool_def validate_pos_int_def to_int_def
  validate_callable_def validate_list_def

lemma module_init_ok: "\<forall>s \<in> set (module_classes env). \<exists>i. init_state s = Inr i"
  by (simp add: module_classes_def init_state_def registered_class_fields module_body_defs
      validator_defs)

subsection \<open>The registry lookup\<close>

lemma make_settings_inv:
  assumes "make_settings reg app inc exc h = (Inr d, h')"
  shows "length h \<le> length h' \<and> take (length h) h' = h \<and> distinct (map fst d) \<and>
     (\<forall>k. case chosen (kept app inc (case exc of None \<Rightarrow> [] | Some xs \<Rightarrow> xs))
                 (KNOWN_SETTINGS reg) k of
            None \<Rightarrow> map_of d k = None
          | Some s \<Rightarrow> (\<exists>a. map_of d k = Some a \<and> length h \<le> a \<and> a < length h' \<and>
                         init_state s = Inr (h' ! a)))"
proof -
  note run = assms [unfolded make_settings_def]
  from loop_keys [OF run] have "distinct (map fst d)" by simp
  moreover from loop_inv [OF run] have "length h \<le> length h'" "take (length h) h' = h"
    by blast+
  moreover have "case chosen (kept app inc (case exc of None \<Rightarrow> [] | Some xs \<Rightarrow> xs))
                 (KNOWN_SETTINGS reg) k of
            None \<Rightarrow> map_of d k = None
          | Some s \<Rightarrow> (\<exists>a. map_of d k = Some a \<and> length h \<le> a \<and> a < length h' \<and>
                         init_state s = Inr (h' ! a))" for k
  proof -
    from loop_inv [OF run] have "case chosen (kept app inc (case exc of None \<Rightarrow> [] | Some xs \<Rightarrow> xs))
                 (KNOWN_SETTINGS reg) k of
            None \<Rightarrow> map_of d k = map_of [] k
          | Some s \<Rightarrow> (\<exists>a. map_of d k = Some a \<and> length h \<le> a \<and> a < length h' \<and>
                         init_state s = Inr (h' ! a))" by blast
    then show ?thesis by (simp split: option.splits)
  qed
  ultimately show ?thesis by blast
qed

lemma make_settings_at:
  assumes "make_settings reg app inc exc h = (Inr d, h')"
    and "chosen (kept app inc (case exc of None \<Rightarrow> [] | Some xs \<Rightarrow> xs)) (KNOWN_SETTINGS reg) k
           = Some s"
  shows "\<exists>a. map_of d k = Some a \<and> length h \<le> a \<and> a < length h' \<and>
              init_state s = Inr (h' ! a)"
proof -
  from make_settings_inv [OF assms(1)] have
    "case chosen (kept app inc (case exc of None \<Rightarrow> [] | Some xs \<Rightarrow> xs))
                 (KNOWN_SETTINGS reg) k of
            None \<Rightarrow> map_of d k = None
          | Some s \<Rightarrow> (\<exists>a. map_of d k = Some a \<and> length h \<le> a \<and> a < length h' \<and>
                         init_state s = Inr (h' ! a))" by blast
  then show ?thesis by (simp add: assms(2))
qed

lemma make_settings_not_at:
  assumes "make_settings reg app inc exc h = (Inr d, h')"
    and "chosen (kept app inc (case exc of None \<Rightarrow> [] | Some xs \<Rightarrow> xs)) (KNOWN_SETTINGS reg) k
           = None"
  shows "map_of d k = None"
proof -
  from make_settings_inv [OF assms(1)] have
    "case chosen (kept app inc (case exc of None \<Rightarrow> [] | Some xs \<Rightarrow> xs))
                 (KNOWN_SETTINGS reg) k of
            None \<Rightarrow> map_of d k = None
          | Some s \<Rightarrow> (\<exists>a. map_of d k = Some a \<and> length h \<le> a \<and> a < length h' \<and>
                         init_state s = Inr (h' ! a))" by blast
  then show ?thesis by (simp add: assms(2))
qed

lemma make_settings_ok:
  "\<forall>s \<in> set (KNOWN_SETTINGS reg). \<exists>i. init_state s = Inr i \<Longrightarrow>
     \<exists>d h'. make_settings reg app inc exc h = (Inr d, h')"
  unfolding make_settings_def by (rule loop_ok)

lemma module_make_settings_ok:
  "\<exists>d h'. make_settings (module_registry env) app inc exc h = (Inr d, h')"
  by (rule make_settings_ok) (simp add: module_registry_eq module_init_ok)

lemma kept_selected:
  "kept app inc (case exc of None \<Rightarrow> [] | Some xs \<Rightarrow> xs) = selected app inc exc"
  by (auto simp: kept_def selected_def truthy_opt_def fun_eq_iff split: option.splits)

text \<open>
  C3, amended. For every application, \<open>include\<close> and \<open>exclude\<close>, when \<^verbatim>\<open>make_settings\<close>
  returns, the mapping it returns has a key exactly for the names of the registered
  descriptors that satisfy: the application of the descriptor is unset or empty or is the
  requested one; if \<open>include\<close> is given and not empty, the name is in it or the descriptor
  has an application; the name is not in \<open>exclude\<close>. A key maps to a new object made from
  the last registered descriptor of that name that satisfies the three conditions. In
  particular no returned name is in \<open>exclude\<close>, and no returned descriptor has the
  application of another.
\<close>

theorem make_settings_selection:
  assumes "make_settings reg app include exclude h = (Inr d, h')"
  shows "\<forall>k. (map_of d k = None \<longleftrightarrow>
              \<not> (\<exists>s \<in> set (KNOWN_SETTINGS reg). s_name s = k \<and> selected app include exclude s)) \<and>
            (\<forall>a. map_of d k = Some a \<longrightarrow>
               a < length h' \<and>
               (\<exists>s. chosen (selected app include exclude) (KNOWN_SETTINGS reg) k = Some s \<and>
                    init_state s = Inr (h' ! a)) \<and>
               s_name (h' ! a) = k \<and>
               \<not> name_in k (case exclude of None \<Rightarrow> [] | Some xs \<Rightarrow> xs) \<and>
               (s_app (h' ! a) = None \<or> s_app (h' ! a) = Some [] \<or> s_app (h' ! a) = app))"
proof (intro allI conjI impI)
  fix k
  from make_settings_inv [OF assms] have
    *: "case chosen (selected app include exclude) (KNOWN_SETTINGS reg) k of
            None \<Rightarrow> map_of d k = None
          | Some s \<Rightarrow> (\<exists>a. map_of d k = Some a \<and> length h \<le> a \<and> a < length h' \<and>
                         init_state s = Inr (h' ! a))"
    by (simp add: kept_selected)
  show "map_of d k = None \<longleftrightarrow>
      \<not> (\<exists>s \<in> set (KNOWN_SETTINGS reg). s_name s = k \<and> selected app include exclude s)"
    using * chosen_None_iff [of "selected app include exclude" "KNOWN_SETTINGS reg" k]
    by (cases "chosen (selected app include exclude) (KNOWN_SETTINGS reg) k") auto
  fix a
  assume a: "map_of d k = Some a"
  with * obtain s where s: "chosen (selected app include exclude) (KNOWN_SETTINGS reg) k = Some s"
    and i: "init_state s = Inr (h' ! a)" and l: "a < length h'"
    by (cases "chosen (selected app include exclude) (KNOWN_SETTINGS reg) k") auto
  from chosen_SomeD [OF s] have sel: "s_name s = k" "selected app include exclude s" by simp_all
  from init_state_fields [OF i] have f: "s_name (h' ! a) = s_name s" "s_app (h' ! a) = s_app s"
    by simp_all
  show "a < length h'" by (rule l)
  show "\<exists>s. chosen (selected app include exclude) (KNOWN_SETTINGS reg) k = Some s \<and>
                    init_state s = Inr (h' ! a)" using s i by blast
  show "s_name (h' ! a) = k" using f sel by simp
  show "\<not> name_in k (case exclude of None \<Rightarrow> [] | Some xs \<Rightarrow> xs)"
    using sel by (simp add: selected_def)
  show "s_app (h' ! a) = None \<or> s_app (h' ! a) = Some [] \<or> s_app (h' ! a) = app"
    using sel f by (simp add: selected_def)
qed

lemmas module_eval =
  module_registry_eq module_classes_def chosen_Cons chosen_Nil kept_def selected_def
  registered_class_fields module_body_defs name_in_def truthy_opt_def

text \<open>
  The claim C3 as it is written fails when \<open>include\<close> is given and empty: the lookup
  returns \<^verbatim>\<open>workers\<close>, the name of a descriptor that is in no \<open>include\<close> and has no
  application.
\<close>

theorem make_settings_empty_include:
  "map_of (projr (fst include_nothing)) (Some ''workers'') \<noteq> None \<and>
   init_state (KNOWN_SETTINGS (module_registry example_host) ! 1) =
     Inr (snd include_nothing ! the (map_of (projr (fst include_nothing)) (Some ''workers''))) \<and>
   \<not> selected_as_stated None (Some []) None (KNOWN_SETTINGS (module_registry example_host) ! 1)"
proof -
  obtain d h' where r: "make_settings (module_registry example_host) None (Some []) None [] = (Inr d, h')"
    using module_make_settings_ok by blast
  have c: "chosen (kept None (Some []) []) (KNOWN_SETTINGS (module_registry example_host)) (Some ''workers'')
      = Some (registered_class example_host 1 Workers)"
    by (simp add: module_eval)
  from make_settings_at [OF r, of "Some ''workers''"] c obtain a where
    a: "map_of d (Some ''workers'') = Some a" "init_state (registered_class example_host 1 Workers) = Inr (h' ! a)"
    by auto
  have n: "KNOWN_SETTINGS (module_registry example_host) ! 1 = registered_class example_host 1 Workers"
    by (simp add: module_registry_eq module_classes_def)
  have "\<not> selected_as_stated None (Some []) None (registered_class example_host 1 Workers)"
    by (simp add: selected_as_stated_def registered_class_fields Workers_def Setting_attrs_def name_in_def)
  with a n show ?thesis by (simp add: include_nothing_def r)
qed

theorem make_settings_selection_witness:
  "map_of (projr (fst include_workers)) (Some ''debug'') = None \<and>
   map_of (projr (fst include_workers)) (Some ''timeout'') = None \<and>
   map_of (projr (fst include_workers)) (Some ''workers'') \<noteq> None"
proof -
  obtain d h' where r: "make_settings (module_registry example_host) None (Some [''workers'', ''debug''])
       (Some [''debug'']) [] = (Inr d, h')"
    using module_make_settings_ok by blast
  have 1: "\<not> (\<exists>s \<in> set (KNOWN_SETTINGS (module_registry example_host)). s_name s = Some ''debug'' \<and>
       selected None (Some [''workers'', ''debug'']) (Some [''debug'']) s)"
    by (simp add: module_eval)
  have 2: "\<not> (\<exists>s \<in> set (KNOWN_SETTINGS (module_registry example_host)). s_name s = Some ''timeout'' \<and>
       selected None (Some [''workers'', ''debug'']) (Some [''debug'']) s)"
    by (simp add: module_eval)
  have 3: "\<exists>s \<in> set (KNOWN_SETTINGS (module_registry example_host)). s_name s = Some ''workers'' \<and>
       selected None (Some [''workers'', ''debug'']) (Some [''debug'']) s"
    by (simp add: module_eval)
  from make_settings_selection [OF r] 1 2 3
  have "map_of d (Some ''debug'') = None \<and> map_of d (Some ''timeout'') = None \<and>
      map_of d (Some ''workers'') \<noteq> None"
    by blast
  then show ?thesis by (simp add: include_workers_def r)
qed

subsection \<open>Registering a name twice\<close>

lemma chosen_snoc:
  "s_name c = k \<Longrightarrow> P c \<Longrightarrow> chosen P (cs @ [c]) k = Some c"
  unfolding chosen_def by (cases "filter (\<lambda>s. s_name s = k \<and> P s) cs") simp_all

text \<open>
  C1, amended. Declaring a Setting descriptor that is not virtual and has a help text is
  never an error, also when its name is the name of a descriptor registered before: the
  metaclass makes no test of the name. The descriptor is appended to the registry after
  the earlier ones, and every lookup that returns and whose filter the descriptor
  passes maps the name to an object made from it, the later descriptor.
\<close>

theorem duplicate_registration:
  assumes "registrable body"
  shows "fst (SettingMeta_new env body reg) =
           Inr (registered_class env (length (KNOWN_SETTINGS reg)) body) \<and>
         KNOWN_SETTINGS (snd (SettingMeta_new env body reg)) =
           KNOWN_SETTINGS reg @ [registered_class env (length (KNOWN_SETTINGS reg)) body] \<and>
         (\<forall>app include exclude h d h'.
            make_settings (snd (SettingMeta_new env body reg)) app include exclude h = (Inr d, h') \<and>
            selected app include exclude (registered_class env (length (KNOWN_SETTINGS reg)) body)
            \<longrightarrow> (\<exists>a. map_of d (b_name body) = Some a \<and> a < length h' \<and>
                   init_state (registered_class env (length (KNOWN_SETTINGS reg)) body) =
                     Inr (h' ! a)))"
proof (intro conjI allI impI)
  let ?c = "registered_class env (length (KNOWN_SETTINGS reg)) body"
  show "fst (SettingMeta_new env body reg) = Inr ?c"
    by (simp add: SettingMeta_new_registered [OF assms])
  show ks: "KNOWN_SETTINGS (snd (SettingMeta_new env body reg)) = KNOWN_SETTINGS reg @ [?c]"
    by (simp add: SettingMeta_new_registered [OF assms])
  fix app inc exc h d h'
  assume a: "make_settings (snd (SettingMeta_new env body reg)) app inc exc h = (Inr d, h') \<and>
            selected app inc exc ?c"
  then have "chosen (kept app inc (case exc of None \<Rightarrow> [] | Some xs \<Rightarrow> xs))
      (KNOWN_SETTINGS (snd (SettingMeta_new env body reg))) (b_name body) = Some ?c"
    by (simp add: ks kept_selected chosen_snoc registered_class_fields)
  from make_settings_at [OF conjunct1 [OF a] this]
  show "\<exists>a. map_of d (b_name body) = Some a \<and> a < length h' \<and> init_state ?c = Inr (h' ! a)"
    by blast
qed

lemma Timeout2_registrable: "registrable Timeout2"
  by (simp add: registrable_def Timeout2_def Timeout_def Setting_attrs_def)

lemma Timeout2_init:
  "init_state (registered_class example_host 26 Timeout2) = Inr i \<Longrightarrow> s_value i = PInt 60"
  by (auto simp: init_state_def registered_class_fields Timeout2_def Timeout_def Setting_attrs_def
      validator_defs split: if_splits)

lemma module_classes_length: "length (module_classes env) = 26"
  by (simp add: module_classes_def)

lemma twice_timeout_eq:
  "fst twice_timeout = Inr (registered_class example_host 26 Timeout2)"
  "KNOWN_SETTINGS (snd twice_timeout) =
     module_classes example_host @ [registered_class example_host 26 Timeout2]"
  by (simp_all add: twice_timeout_def SettingMeta_new_registered [OF Timeout2_registrable]
      module_registry_eq module_classes_length)

lemma twice_timeout_ok:
  "\<exists>d h'. make_settings (snd twice_timeout) None None None [] = (Inr d, h')"
proof (rule make_settings_ok)
  note twice_timeout_eq(2)
  moreover have "\<exists>i. init_state (registered_class example_host 26 Timeout2) = Inr i"
    by (simp add: init_state_def registered_class_fields Timeout2_def Timeout_def Setting_attrs_def
      validator_defs)
  ultimately show "\<forall>s\<in>set (KNOWN_SETTINGS (snd twice_timeout)). \<exists>i. init_state s = Inr i"
    using module_init_ok [of example_host] by auto
qed

theorem duplicate_registration_witness:
  "fst twice_timeout = Inr (registered_class example_host 26 Timeout2) \<and>
   map_of (projr (fst lookup_twice_timeout)) (Some ''timeout'') \<noteq> None \<and>
   init_state (registered_class example_host 26 Timeout2) =
     Inr (snd lookup_twice_timeout ! the (map_of (projr (fst lookup_twice_timeout)) (Some ''timeout'')))"
proof -
  obtain d h' where r: "make_settings (snd twice_timeout) None None None [] = (Inr d, h')"
    using twice_timeout_ok by blast
  have l: "length (KNOWN_SETTINGS (module_registry example_host)) = 26"
    by (simp add: module_registry_eq module_classes_length)
  have s: "selected None None None (registered_class example_host 26 Timeout2)"
    by (simp add: selected_def registered_class_fields Timeout2_def Timeout_def Setting_attrs_def name_in_def)
  have n: "b_name Timeout2 = Some ''timeout''"
    by (simp add: Timeout2_def Timeout_def Setting_attrs_def)
  from duplicate_registration [OF Timeout2_registrable, of example_host "module_registry example_host"]
  have 1: "fst twice_timeout = Inr (registered_class example_host 26 Timeout2)"
    and 2: "\<exists>a. map_of d (Some ''timeout'') = Some a \<and> a < length h' \<and>
               init_state (registered_class example_host 26 Timeout2) = Inr (h' ! a)"
    using r s by (auto simp: l n twice_timeout_def)
  from 1 2 show ?thesis by (auto simp: lookup_twice_timeout_def r)
qed

text \<open>
  The claim C1 as it is written fails: after the import of the module, a second class of
  the name \<^verbatim>\<open>timeout\<close> with the default 60 is registered without an error, the registry
  then holds 27 classes, the first \<^verbatim>\<open>timeout\<close> with its default 30 among them, and a
  lookup returns under the name \<^verbatim>\<open>timeout\<close> a setting of the value 60.
\<close>

theorem duplicate_registration_silent:
  "''timeout'' \<in> KNOWN_SETTINGS_SET (module_registry example_host) \<and>
   \<not> isl (fst twice_timeout) \<and>
   length (KNOWN_SETTINGS (snd twice_timeout)) = 27 \<and>
   s_default (KNOWN_SETTINGS (snd twice_timeout) ! 4) = PInt 30 \<and>
   s_name (KNOWN_SETTINGS (snd twice_timeout) ! 4) = Some ''timeout'' \<and>
   \<not> isl (fst lookup_twice_timeout) \<and>
   Setting_get (snd lookup_twice_timeout)
     (the (map_of (projr (fst lookup_twice_timeout)) (Some ''timeout''))) = Inr (PInt 60)"
proof -
  obtain d h' where r: "make_settings (snd twice_timeout) None None None [] = (Inr d, h')"
    using twice_timeout_ok by blast
  note ks = twice_timeout_eq(2) and f = twice_timeout_eq(1)
  have "chosen (kept None None (case None of None \<Rightarrow> [] | Some xs \<Rightarrow> xs)) (KNOWN_SETTINGS (snd twice_timeout)) (Some ''timeout'')
      = Some (registered_class example_host 26 Timeout2)"
    unfolding ks
    by (rule chosen_snoc) (simp_all add: kept_def registered_class_fields Timeout2_def Timeout_def Setting_attrs_def
        name_in_def truthy_opt_def)
  from make_settings_at [OF r this] obtain a where
    a: "map_of d (Some ''timeout'') = Some a" "a < length h'"
       "init_state (registered_class example_host 26 Timeout2) = Inr (h' ! a)" by blast
  from Timeout2_init [OF a(3)] a have g: "Setting_get h' a = Inr (PInt 60)"
    by (simp add: Setting_get_def)
  have m: "''timeout'' \<in> KNOWN_SETTINGS_SET (module_registry example_host)"
    by (simp add: module_registry_eq module_names_def)
  have k: "s_default (KNOWN_SETTINGS (snd twice_timeout) ! 4) = PInt 30 \<and>
      s_name (KNOWN_SETTINGS (snd twice_timeout) ! 4) = Some ''timeout'' \<and>
      length (KNOWN_SETTINGS (snd twice_timeout)) = 27"
    by (simp add: ks module_classes_length nth_append)
      (simp add: module_classes_def registered_class_fields Timeout_def Setting_attrs_def)
  from m k f g a show ?thesis by (simp add: lookup_twice_timeout_def r)
qed

subsection \<open>Reading and assigning attributes of a Config\<close>

lemma contains_dict: "contains (SettingsDict m) name = Inr (map_of m (Some name) \<noteq> None)"
  by (simp add: contains_def map_of_eq_None_iff)

lemma Config_init_eq:
  assumes "make_settings reg app inc exc h = (Inr d, h')"
    and "map_of d (Some ''description'') = None" "map_of d (Some ''epilog'') = None"
  shows "Config_init reg h description epilog app inc exc =
     (Inr ((Map.empty(''settings'' \<mapsto> SettingsDict d))
             (''description'' \<mapsto> Val (opt_val (or_opt description (Some ''Pulsar server''))),
              ''epilog'' \<mapsto> Val (opt_val (or_opt epilog (Some ''Have fun!''))))), h')"
  using assms
  by (simp add: Config_init_def Config_setattr_def self_settings_def contains_dict
      object_setattr_def Config_class_attr_def)

lemma module_Config_init:
  "\<exists>c d h'.
     Config_init (module_registry env) h description epilog app inc exc = (Inr c, h') \<and>
     make_settings (module_registry env) app inc exc h = (Inr d, h') \<and>
     c ''settings'' = Some (SettingsDict d) \<and>
     c ''description'' = Some (Val (opt_val (or_opt description (Some ''Pulsar server'')))) \<and>
     c ''epilog'' = Some (Val (opt_val (or_opt epilog (Some ''Have fun!'')))) \<and>
     (\<forall>name. name \<notin> {''settings'', ''description'', ''epilog''} \<longrightarrow> c name = None)"
proof -
  obtain d h' where r: "make_settings (module_registry env) app inc exc h = (Inr d, h')"
    using module_make_settings_ok by blast
  have "chosen (kept app inc (case exc of None \<Rightarrow> [] | Some xs \<Rightarrow> xs))
      (KNOWN_SETTINGS (module_registry env)) (Some ''description'') = None"
    "chosen (kept app inc (case exc of None \<Rightarrow> [] | Some xs \<Rightarrow> xs))
      (KNOWN_SETTINGS (module_registry env)) (Some ''epilog'') = None"
    by (simp_all add: chosen_None_iff module_registry_eq module_classes_def registered_class_fields
        module_body_defs)
  then have n: "map_of d (Some ''description'') = None" "map_of d (Some ''epilog'') = None"
    using make_settings_not_at [OF r] by blast+
  show ?thesis
    using Config_init_eq [OF r n, of description epilog] r by auto
qed

text \<open>
  An assignment to the name of a bound setting is refused, so the instance dictionary
  never gets an entry for such a name.
\<close>

lemma Config_setattr_bound:
  assumes "c ''settings'' = Some (SettingsDict m)" and "map_of m (Some name) \<noteq> None"
    and "name \<noteq> ''settings''"
  shows "Config_setattr c name v = Inl (Exc AttributeError ''Invalid access!'' [])"
  using assms by (simp add: Config_setattr_def self_settings_def contains_dict)

text \<open>
  C2, amended. For every \<^verbatim>\<open>Config\<close> object whose attribute \<^verbatim>\<open>settings\<close> holds its dictionary
  of bound settings, and every name that is not an attribute of the class \<^verbatim>\<open>Config\<close> (none
  of its properties, slots and methods) and has no entry in the instance dictionary: if
  the name is bound, reading it returns what \<^verbatim>\<open>get()\<close> of the setting returns; if it is
  not bound but registered, reading it returns \<^verbatim>\<open>None\<close>; if it is not registered, reading
  it raises \<^verbatim>\<open>AttributeError\<close> with the message for an unknown setting.
\<close>

theorem Config_read_cases:
  assumes "c ''settings'' = Some (SettingsDict m)"
    and "Config_class_attr name = None" and "c name = None"
  shows "Config_read env reg h c name =
     (case map_of m (Some name) of
        Some a \<Rightarrow> (case Setting_get h a of Inl e \<Rightarrow> Inl e | Inr v \<Rightarrow> Inr (Val v))
      | None \<Rightarrow>
          if name \<in> KNOWN_SETTINGS_SET reg then Inr (Val PNone)
          else Inl (Exc AttributeError ''No configuration setting for: %s'' [PStr name]))"
  using assms
  by (auto simp: Config_read_def Config_getattr_def self_settings_def contains_dict getitem_def
      split: option.splits)

text \<open>
  C9, amended. For every \<^verbatim>\<open>Config\<close> object whose attribute \<^verbatim>\<open>settings\<close> holds its dictionary
  of bound settings, and every name that is not bound and is not a property or a slot of
  the class \<^verbatim>\<open>Config\<close> (registered or not): assigning a value to the name is accepted, the
  value is stored as it is, no validator runs, and reading the name afterwards returns
  the assigned value, whatever the settings hold by then.
\<close>

theorem Config_setattr_unbound:
  assumes "c ''settings'' = Some (SettingsDict m)" and "map_of m (Some name) = None"
    and "Config_class_attr name \<noteq> Some Property" and "Config_class_attr name \<noteq> Some Slot"
  shows "Config_setattr c name raw = Inr (c(name \<mapsto> Val raw)) \<and>
         (\<forall>h'. Config_read env reg h' (c(name \<mapsto> Val raw)) name = Inr (Val raw))"
  using assms
  by (cases "Config_class_attr name")
     (auto simp: Config_setattr_def self_settings_def contains_dict object_setattr_def Config_read_def
      split: class_attr.splits)

text \<open>
  C7. On a \<^verbatim>\<open>Config\<close> whose bound settings contain \<^verbatim>\<open>workers\<close>, with the validator
  \<^verbatim>\<open>validate_pos_int\<close> of the class \<^verbatim>\<open>Workers\<close>, \<^verbatim>\<open>set("workers", "4")\<close> succeeds and reading
  \<^verbatim>\<open>workers\<close> afterwards gives the integer 4: the stored value is the output of the
  validator, not the string.
\<close>

theorem Config_set_workers:
  assumes "c ''settings'' = Some (SettingsDict m)" and "map_of m (Some ''workers'') = Some a"
    and "a < length h" and "s_validator (h ! a) = Some validate_pos_int"
  shows "Config_set h c ''workers'' (PStr ''4'') =
           (Inr (), h[a := (h ! a)\<lparr>s_value := PInt 4\<rparr>]) \<and>
         Config_read env reg (h[a := (h ! a)\<lparr>s_value := PInt 4\<rparr>]) c ''workers'' = Inr (Val (PInt 4))"
proof -
  have "int_base0 ''4'' = Some 4" by code_simp
  then have v: "validate_pos_int (PStr ''4'') = Inr (PInt 4)"
    by (simp add: validate_pos_int_def to_int_def)
  show ?thesis
    using assms v
    by (simp add: Config_set_def self_settings_def contains_dict getitem_def Setting_set_def
        Config_read_def Config_class_attr_def Config_property_def Config_workers_def
        Setting_get_def)
qed

lemma module_chosen_workers_excluded:
  "chosen (kept None None (case Some [''workers''] of None \<Rightarrow> [] | Some xs \<Rightarrow> xs))
     (KNOWN_SETTINGS (module_registry env)) (Some ''workers'') = None"
  by (simp add: module_eval)

text \<open>
  The claim C2 as it is written fails for the names of the properties of \<^verbatim>\<open>Config\<close>. On a
  \<^verbatim>\<open>Config\<close> that excludes \<^verbatim>\<open>workers\<close>, a registered name, reading \<^verbatim>\<open>workers\<close> raises
  \<^verbatim>\<open>KeyError\<close>: the property looks the name up in the dictionary. On a \<^verbatim>\<open>Config\<close> without
  a filter, \<^verbatim>\<open>proc_name\<close> is bound and its \<^verbatim>\<open>get()\<close> is \<^verbatim>\<open>None\<close>, yet reading \<^verbatim>\<open>proc_name\<close>
  returns the default process name.
\<close>

theorem Config_read_property_shadows:
  "''workers'' \<in> KNOWN_SETTINGS_SET (module_registry example_host) \<and>
   map_of (bound_settings (projr (fst config_without_workers))) (Some ''workers'') = None \<and>
   Config_read example_host (module_registry example_host) (snd config_without_workers)
     (projr (fst config_without_workers)) ''workers'' = Inl (Exc KeyError ''%s'' [PStr ''workers'']) \<and>
   Setting_get (snd default_config)
     (the (map_of (bound_settings (projr (fst default_config))) (Some ''proc_name''))) = Inr PNone \<and>
   Config_read example_host (module_registry example_host) (snd default_config)
     (projr (fst default_config)) ''proc_name'' = Inr (Val (PStr ''pulsar''))"
proof -
  obtain c d h' where
    i: "Config_init (module_registry example_host) [] None None None None (Some [''workers'']) = (Inr c, h')"
    and r: "make_settings (module_registry example_host) None None (Some [''workers'']) [] = (Inr d, h')"
    and cs: "c ''settings'' = Some (SettingsDict d)"
    using module_Config_init [of example_host "[]" None None None None "Some [''workers'']"]
    by (elim exE conjE) (rule that)
  from make_settings_not_at [OF r module_chosen_workers_excluded]
  have n: "map_of d (Some ''workers'') = None" .
  have 1: "''workers'' \<in> KNOWN_SETTINGS_SET (module_registry example_host)"
    by (simp add: module_registry_eq module_names_def)
  have 2: "map_of (bound_settings (projr (fst config_without_workers))) (Some ''workers'') = None"
    using n cs by (simp add: config_without_workers_def i bound_settings_def)
  have 3: "Config_read example_host (module_registry example_host) (snd config_without_workers)
     (projr (fst config_without_workers)) ''workers'' = Inl (Exc KeyError ''%s'' [PStr ''workers''])"
    using n cs
    by (simp add: config_without_workers_def i Config_read_def Config_class_attr_def
        Config_property_def Config_workers_def self_settings_def getitem_def)
  obtain c2 d2 h2 where
    i2: "Config_init (module_registry example_host) [] None None None None None = (Inr c2, h2)"
    and r2: "make_settings (module_registry example_host) None None None [] = (Inr d2, h2)"
    and cs2: "c2 ''settings'' = Some (SettingsDict d2)"
    using module_Config_init [of example_host "[]" None None None None None]
    by (elim exE conjE) (rule that)
  have "chosen (kept None None (case None of None \<Rightarrow> [] | Some xs \<Rightarrow> xs))
     (KNOWN_SETTINGS (module_registry example_host)) (Some ''proc_name'')
       = Some (registered_class example_host 17 Procname)"
    by (simp add: module_eval)
  from make_settings_at [OF r2 this] obtain a where
    a: "map_of d2 (Some ''proc_name'') = Some a" "a < length h2"
       "init_state (registered_class example_host 17 Procname) = Inr (h2 ! a)" by blast
  have "chosen (kept None None (case None of None \<Rightarrow> [] | Some xs \<Rightarrow> xs))
     (KNOWN_SETTINGS (module_registry example_host)) (Some ''default_proc_name'')
       = Some (registered_class example_host 18 (DefaultProcName example_host))"
    by (simp add: module_eval)
  from make_settings_at [OF r2 this] obtain b where
    b: "map_of d2 (Some ''default_proc_name'') = Some b" "b < length h2"
       "init_state (registered_class example_host 18 (DefaultProcName example_host)) = Inr (h2 ! b)"
    by blast
  have va: "s_value (h2 ! a) = PNone"
    using init_state_value [OF a(3) registered_class_fields(12)]
    by (simp add: registered_class_fields Procname_def Setting_attrs_def)
  have vb: "s_value (h2 ! b) = PStr ''pulsar''"
    using init_state_value [OF b(3) registered_class_fields(12)]
    by (simp add: registered_class_fields DefaultProcName_def Setting_attrs_def
        validator_defs example_host_def py_strip_def py_isspace_def)
  have 4: "Setting_get (snd default_config)
     (the (map_of (bound_settings (projr (fst default_config))) (Some ''proc_name''))) = Inr PNone"
    using a va cs2 by (simp add: default_config_def i2 bound_settings_def Setting_get_def)
  have 5: "Config_read example_host (module_registry example_host) (snd default_config)
     (projr (fst default_config)) ''proc_name'' = Inr (Val (PStr ''pulsar''))"
    using a b va vb cs2
    by (simp add: default_config_def i2 Config_read_def Config_class_attr_def
        Config_property_def Config_proc_name_def self_settings_def dict_get_def Setting_get_def)
  from 1 2 3 4 5 show ?thesis by blast
qed

lemma module_chosen_debug_excluded:
  "chosen (kept None None (case Some [''debug''] of None \<Rightarrow> [] | Some xs \<Rightarrow> xs))
     (KNOWN_SETTINGS (module_registry env)) (Some ''debug'') = None"
  by (simp add: module_eval)

theorem Config_read_cases_witness:
  "Config_read example_host (module_registry example_host) (snd config_without_debug)
     (projr (fst config_without_debug)) ''debug'' = Inr (Val PNone) \<and>
   Config_read example_host (module_registry example_host) (snd config_without_debug)
     (projr (fst config_without_debug)) ''no_such_setting'' =
       Inl (Exc AttributeError ''No configuration setting for: %s'' [PStr ''no_such_setting'']) \<and>
   Config_read example_host (module_registry example_host) (snd config_without_debug)
     (projr (fst config_without_debug)) ''timeout'' = Inr (Val (PInt 30))"
proof -
  let ?reg = "module_registry example_host"
  obtain c d h' where
    i: "Config_init ?reg [] None None None None (Some [''debug'']) = (Inr c, h')"
    and r: "make_settings ?reg None None (Some [''debug'']) [] = (Inr d, h')"
    and cs: "c ''settings'' = Some (SettingsDict d)"
    and cn: "\<forall>name. name \<notin> {''settings'', ''description'', ''epilog''} \<longrightarrow> c name = None"
    using module_Config_init [of example_host "[]" None None None None "Some [''debug'']"]
    by (elim exE conjE) (rule that)
  from make_settings_not_at [OF r module_chosen_debug_excluded]
  have n1: "map_of d (Some ''debug'') = None" .
  have "chosen (kept None None (case Some [''debug''] of None \<Rightarrow> [] | Some xs \<Rightarrow> xs))
     (KNOWN_SETTINGS ?reg) (Some ''no_such_setting'') = None"
    by (simp add: module_eval)
  from make_settings_not_at [OF r this] have n2: "map_of d (Some ''no_such_setting'') = None" .
  have "chosen (kept None None (case Some [''debug''] of None \<Rightarrow> [] | Some xs \<Rightarrow> xs))
     (KNOWN_SETTINGS ?reg) (Some ''timeout'') = Some (registered_class example_host 4 Timeout)"
    by (simp add: module_eval)
  from make_settings_at [OF r this] obtain a where
    a: "map_of d (Some ''timeout'') = Some a" "a < length h'"
       "init_state (registered_class example_host 4 Timeout) = Inr (h' ! a)" by blast
  have va: "s_value (h' ! a) = PInt 30"
    using init_state_value [OF a(3) registered_class_fields(12)]
    by (simp add: registered_class_fields Timeout_def Setting_attrs_def validator_defs)
  have k: "''debug'' \<in> KNOWN_SETTINGS_SET ?reg" "''no_such_setting'' \<notin> KNOWN_SETTINGS_SET ?reg"
    by (simp_all add: module_registry_eq module_names_def)
  have ca: "Config_class_attr ''debug'' = None" "Config_class_attr ''no_such_setting'' = None"
    "Config_class_attr ''timeout'' = None"
    by (simp_all add: Config_class_attr_def)
  have 1: "Config_read example_host ?reg h' c ''debug'' = Inr (Val PNone)"
    using Config_read_cases [where c = c and m = d and name = "''debug''"
        and env = example_host and reg = ?reg and h = h'] cs ca(1) cn n1 k by simp
  have 2: "Config_read example_host ?reg h' c ''no_such_setting'' =
       Inl (Exc AttributeError ''No configuration setting for: %s'' [PStr ''no_such_setting''])"
    using Config_read_cases [where c = c and m = d and name = "''no_such_setting''"
        and env = example_host and reg = ?reg and h = h'] cs ca(2) cn n2 k by simp
  have 3: "Config_read example_host ?reg h' c ''timeout'' = Inr (Val (PInt 30))"
    using Config_read_cases [where c = c and m = d and name = "''timeout''"
        and env = example_host and reg = ?reg and h = h'] cs ca(3) cn a va
    by (simp add: Setting_get_def)
  from 1 2 3 show ?thesis by (simp add: config_without_debug_def i)
qed

text \<open>
  The claim C9 as it is written fails for the name of a property: on a \<^verbatim>\<open>Config\<close> that
  excludes \<^verbatim>\<open>workers\<close>, a registered name, assigning to \<^verbatim>\<open>workers\<close> is rejected, because the
  property \<^verbatim>\<open>workers\<close> of the class has no setter.
\<close>

theorem Config_setattr_property_rejected:
  "''workers'' \<in> KNOWN_SETTINGS_SET (module_registry example_host) \<and>
   map_of (bound_settings (projr (fst config_without_workers))) (Some ''workers'') = None \<and>
   Config_setattr (projr (fst config_without_workers)) ''workers'' (PInt 5) =
     Inl (Exc AttributeError ''cannot set attribute'' [])"
proof -
  obtain c d h' where
    i: "Config_init (module_registry example_host) [] None None None None (Some [''workers'']) = (Inr c, h')"
    and r: "make_settings (module_registry example_host) None None (Some [''workers'']) [] = (Inr d, h')"
    and cs: "c ''settings'' = Some (SettingsDict d)"
    using module_Config_init [of example_host "[]" None None None None "Some [''workers'']"]
    by (elim exE conjE) (rule that)
  from make_settings_not_at [OF r module_chosen_workers_excluded]
  have n: "map_of d (Some ''workers'') = None" .
  have 1: "''workers'' \<in> KNOWN_SETTINGS_SET (module_registry example_host)"
    by (simp add: module_registry_eq module_names_def)
  from n cs 1 show ?thesis
    by (simp add: config_without_workers_def i bound_settings_def Config_setattr_def
        self_settings_def contains_dict object_setattr_def Config_class_attr_def)
qed

theorem Config_setattr_unbound_witness:
  "Config_setattr (projr (fst config_without_debug)) ''debug'' (PStr ''maybe'') =
     Inr ((projr (fst config_without_debug))(''debug'' \<mapsto> Val (PStr ''maybe''))) \<and>
   Config_read example_host (module_registry example_host) (snd config_without_debug)
     ((projr (fst config_without_debug))(''debug'' \<mapsto> Val (PStr ''maybe''))) ''debug'' =
     Inr (Val (PStr ''maybe''))"
proof -
  let ?reg = "module_registry example_host"
  obtain c d h' where
    i: "Config_init ?reg [] None None None None (Some [''debug'']) = (Inr c, h')"
    and r: "make_settings ?reg None None (Some [''debug'']) [] = (Inr d, h')"
    and cs: "c ''settings'' = Some (SettingsDict d)"
    using module_Config_init [of example_host "[]" None None None None "Some [''debug'']"]
    by (elim exE conjE) (rule that)
  from make_settings_not_at [OF r module_chosen_debug_excluded]
  have n1: "map_of d (Some ''debug'') = None" .
  have ca: "Config_class_attr ''debug'' \<noteq> Some Property" "Config_class_attr ''debug'' \<noteq> Some Slot"
    by (simp_all add: Config_class_attr_def)
  from Config_setattr_unbound [where c = c and m = d and name = "''debug''"
      and raw = "PStr ''maybe''" and env = example_host and reg = ?reg] cs n1 ca
  show ?thesis by (simp add: config_without_debug_def i)
qed

theorem Config_set_workers_witness:
  "fst (Config_set (snd default_config) (projr (fst default_config)) ''workers'' (PStr ''4'')) = Inr () \<and>
   Config_read example_host (module_registry example_host)
     (snd (Config_set (snd default_config) (projr (fst default_config)) ''workers'' (PStr ''4'')))
     (projr (fst default_config)) ''workers'' = Inr (Val (PInt 4))"
proof -
  let ?reg = "module_registry example_host"
  obtain c d h' where
    i: "Config_init ?reg [] None None None None None = (Inr c, h')"
    and r: "make_settings ?reg None None None [] = (Inr d, h')"
    and cs: "c ''settings'' = Some (SettingsDict d)"
    using module_Config_init [of example_host "[]" None None None None None]
    by (elim exE conjE) (rule that)
  have "chosen (kept None None (case None of None \<Rightarrow> [] | Some xs \<Rightarrow> xs))
     (KNOWN_SETTINGS ?reg) (Some ''workers'') = Some (registered_class example_host 1 Workers)"
    by (simp add: module_eval)
  from make_settings_at [OF r this] obtain a where
    a: "map_of d (Some ''workers'') = Some a" "a < length h'"
       "init_state (registered_class example_host 1 Workers) = Inr (h' ! a)" by blast
  from init_state_fields [OF a(3)] have v: "s_validator (h' ! a) = Some validate_pos_int"
    by (simp add: registered_class_fields Workers_def Setting_attrs_def wrap_method_def)
  from Config_set_workers [where c = c and m = d and a = a and h = h'
      and env = example_host and reg = ?reg] cs a(1) a(2) v
  show ?thesis by (simp add: default_config_def i)
qed

subsection \<open>\<^verbatim>\<open>make_options\<close> never returns\<close>

lemma make_options_loop_NameError:
  assumes "''optparse'' \<notin> set (module_globals env)"
    and "\<forall>k \<in> set ks. \<exists>a. map_of g k = Some a \<and> a < length h"
    and "\<exists>k \<in> set ks. truthy_opt (s_cli (h ! the (map_of g k)))"
  shows "make_options_loop env h g ks opts =
           Inl (Exc NameError ''name %s is not defined'' [PStr ''optparse''])"
  using assms(2,3)
proof (induction ks arbitrary: opts)
  case Nil
  then show ?case by simp
next
  case (Cons k ks)
  from Cons.prems(1) obtain a where a: "map_of g k = Some a" "a < length h" by auto
  show ?case
  proof (cases "truthy_opt (s_cli (h ! a))")
    case True
    with a assms(1) show ?thesis by simp
  next
    case False
    with Cons.prems a have "\<exists>k \<in> set ks. truthy_opt (s_cli (h ! the (map_of g k)))" by auto
    with Cons.IH Cons.prems(1) a False show ?thesis by simp
  qed
qed

lemma make_settings_keys:
  assumes "make_settings reg app inc exc h = (Inr d, h')" and "k \<in> set (map fst d)"
  shows "\<exists>a s. map_of d k = Some a \<and> length h \<le> a \<and> a < length h' \<and>
     chosen (kept app inc (case exc of None \<Rightarrow> [] | Some xs \<Rightarrow> xs)) (KNOWN_SETTINGS reg) k = Some s \<and>
     init_state s = Inr (h' ! a)"
proof (cases "chosen (kept app inc (case exc of None \<Rightarrow> [] | Some xs \<Rightarrow> xs)) (KNOWN_SETTINGS reg) k")
  case None
  from make_settings_not_at [OF assms(1) None] assms(2) show ?thesis
    by (simp add: map_of_eq_None_iff)
next
  case (Some s)
  from make_settings_at [OF assms(1) Some] Some show ?thesis by blast
qed

lemma make_options_raises:
  assumes "''optparse'' \<notin> set (host_star_names env)"
    and r: "make_settings reg None None (Some [''version'']) h = (Inr g, h1)"
    and e: "\<exists>k \<in> set (map fst g). truthy_opt (s_cli (h1 ! the (map_of g k)))"
  shows "fst (make_options env reg h) =
           Inl (Exc NameError ''name %s is not defined'' [PStr ''optparse''])"
proof -
  from assms(1) have n: "''optparse'' \<notin> set (module_globals env)"
    by (simp add: module_globals_def)
  have k: "\<forall>k \<in> set (map fst g). \<exists>a. map_of g k = Some a \<and> a < length h1"
    using make_settings_keys [OF r] by blast
  from make_options_loop_NameError [OF n k e] show ?thesis
    by (simp add: make_options_def r)
qed

lemma module_make_options:
  assumes "''optparse'' \<notin> set (host_star_names env)"
  shows "fst (make_options env (module_registry env) h) =
           Inl (Exc NameError ''name %s is not defined'' [PStr ''optparse''])"
proof -
  obtain g h1 where
    r: "make_settings (module_registry env) None None (Some [''version'']) h = (Inr g, h1)"
    using module_make_settings_ok by blast
  have "chosen (kept None None (case Some [''version''] of None \<Rightarrow> [] | Some xs \<Rightarrow> xs))
     (KNOWN_SETTINGS (module_registry env)) (Some ''config'') = Some (registered_class env 0 ConfigFile)"
    by (simp add: module_eval)
  from make_settings_at [OF r this] obtain a where
    a: "map_of g (Some ''config'') = Some a" "a < length h1"
       "init_state (registered_class env 0 ConfigFile) = Inr (h1 ! a)" by blast
  from init_state_fields [OF a(3)] have "truthy_opt (s_cli (h1 ! a))"
    by (simp add: registered_class_fields ConfigFile_def Setting_attrs_def truthy_opt_def)
  moreover from a(1) have "Some ''config'' \<in> set (map fst g)"
    by (metis map_of_eq_None_iff option.distinct(1) set_map)
  ultimately have e: "\<exists>k \<in> set (map fst g). truthy_opt (s_cli (h1 ! the (map_of g k)))"
    using a(1) by (intro bexI [of _ "Some ''config''"]) simp_all
  from make_options_raises [OF assms r e] show ?thesis .
qed

text \<open>
  C10. When the star import does not bind the name \<^verbatim>\<open>optparse\<close> (nothing else in the
  module binds it), every call of \<^verbatim>\<open>make_options\<close> on the registry of the module raises
  \<^verbatim>\<open>NameError\<close> for that name and returns no value: the registry holds settings with
  command line flags, \<^verbatim>\<open>config\<close> among them. On any registry, the call raises that
  \<^verbatim>\<open>NameError\<close> as soon as one setting it gets from \<^verbatim>\<open>make_settings\<close> has flags, and
  raises the exception of \<^verbatim>\<open>make_settings\<close> when that fails.
\<close>

theorem make_options_NameError:
  assumes "''optparse'' \<notin> set (host_star_names env)"
  shows "fst (make_options env (module_registry env) h) =
           Inl (Exc NameError ''name %s is not defined'' [PStr ''optparse'']) \<and>
         (\<forall>reg g h1.
            make_settings reg None None (Some [''version'']) h = (Inr g, h1) \<and>
            (\<exists>k \<in> set (map fst g). truthy_opt (s_cli (h1 ! the (map_of g k)))) \<longrightarrow>
            fst (make_options env reg h) =
              Inl (Exc NameError ''name %s is not defined'' [PStr ''optparse''])) \<and>
         (\<forall>reg e h1.
            make_settings reg None None (Some [''version'']) h = (Inl e, h1) \<longrightarrow>
            fst (make_options env reg h) = Inl e)"
proof (intro conjI allI impI)
  show "fst (make_options env (module_registry env) h) =
      Inl (Exc NameError ''name %s is not defined'' [PStr ''optparse''])"
    by (rule module_make_options [OF assms])
next
  fix reg g h1
  assume "make_settings reg None None (Some [''version'']) h = (Inr g, h1) \<and>
            (\<exists>k \<in> set (map fst g). truthy_opt (s_cli (h1 ! the (map_of g k))))"
  then show "fst (make_options env reg h) =
      Inl (Exc NameError ''name %s is not defined'' [PStr ''optparse''])"
    using make_options_raises [OF assms] by blast
next
  fix reg e h1
  assume "make_settings reg None None (Some [''version'']) h = (Inl e, h1)"
  then show "fst (make_options env reg h) = Inl e"
    by (simp add: make_options_def)
qed

theorem make_options_NameError_witness:
  "fst (make_options example_host (module_registry example_host) []) =
     Inl (Exc NameError ''name %s is not defined'' [PStr ''optparse''])"
proof -
  have "''optparse'' \<notin> set (host_star_names example_host)"
    by (simp add: example_host_def)
  from make_options_NameError [OF this] show ?thesis by blast
qed

subsection \<open>The order of the command line\<close>

lemma sorted_two:
  fixes f :: "'a \<Rightarrow> 'b::linorder"
  assumes "set ks = {x, y}" "distinct ks" "sorted (map f ks)" "f x < f y"
  shows "ks = [x, y]"
proof -
  from assms(4) have xy: "x \<noteq> y" by auto
  with assms(1,2) have "length ks = 2"
    by (metis distinct_card card_2_iff)
  then obtain a b where ks: "ks = [a, b]"
    by (metis length_0_conv length_Suc_conv numeral_2_eq_2)
  with assms(1) have "(a = x \<and> b = y) \<or> (a = y \<and> b = x)"
    by (auto simp: doubleton_eq_iff)
  with assms(3,4) ks show ?thesis by auto
qed

lemma distinct_singleton:
  "distinct xs \<Longrightarrow> set xs = {x} \<Longrightarrow> xs = [x]"
  by (metis distinct_card card_1_singleton_iff length_0_conv length_Suc_conv
      list.set_intros(1) singletonD One_nat_def)

lemma add_arguments_eq:
  assumes "\<forall>k \<in> set ks. \<exists>a. map_of m k = Some a \<and> a < length h"
  shows "add_arguments h m ks p =
     Inr (p\<lparr>p_arguments := p_arguments p @
            List.map_filter (\<lambda>k. add_argument_call (h ! the (map_of m k))) ks\<rparr>)"
  using assms
proof (induction ks arbitrary: p)
  case Nil
  then show ?case by (simp add: List.map_filter_simps)
next
  case (Cons k ks)
  from Cons.prems obtain a where a: "map_of m k = Some a" "a < length h" by auto
  from Cons.prems have r: "\<forall>k \<in> set ks. \<exists>a. map_of m k = Some a \<and> a < length h" by simp
  show ?case
    using a Cons.IH [OF r]
    by (cases "add_argument_call (h ! a)")
       (simp_all add: Setting_add_argument_def List.map_filter_simps)
qed

lemma make_settings_key_set:
  assumes "make_settings reg app inc exc h = (Inr d, h')"
  shows "set (map fst d) =
     set (map s_name (filter (kept app inc (case exc of None \<Rightarrow> [] | Some xs \<Rightarrow> xs))
                        (KNOWN_SETTINGS reg)))"
  using loop_keys [OF assms [unfolded make_settings_def]] by auto

text \<open>
  C6, amended. \<^verbatim>\<open>Config.parser()\<close> adds, after the version flag, one argument for each
  bound setting that has flags, or has \<^verbatim>\<open>nargs\<close> and a name, and none for the other bound
  settings; the arguments stand in the order of the pairs (section, declaration order) of
  their settings. This holds when the sections of the bound settings are all strings or
  all \<^verbatim>\<open>None\<close>; Python 3 cannot sort them otherwise.
\<close>

theorem Config_parser_order:
  assumes cs: "c ''settings'' = Some (SettingsDict m)"
    and dist: "distinct (map fst m)"
    and valid: "list_all (\<lambda>(k, a). a < length h) m"
    and sec: "(\<forall>x \<in> set m. s_section (h ! snd x) = None) \<or>
              (\<forall>x \<in> set m. s_section (h ! snd x) \<noteq> None)"
    and rd: "Config_read env reg h c ''description'' = Inr dsc"
    and re: "Config_read env reg h c ''epilog'' = Inr ep"
  shows "\<exists>ks. Config_parser env reg h c =
           Inr \<lparr>p_description = dsc, p_epilog = ep,
                p_arguments = version_argument env #
                  List.map_filter (\<lambda>k. add_argument_call (h ! the (map_of m k))) ks\<rparr> \<and>
         set ks = fst ` set m \<and> distinct ks \<and>
         sorted (map (\<lambda>k. (s_section (h ! the (map_of m k)), s_order (h ! the (map_of m k)))) ks)"
proof -
  let ?ks = "sort_key (sorter h m) (map fst m)"
  have mo: "map_of m (fst x) = Some (snd x)" if "x \<in> set m" for x
    using map_of_is_SomeI [OF dist, of "fst x" "snd x"] that by simp
  have key: "sorter h m (fst x) = (s_section (h ! snd x), s_order (h ! snd x))"
    if "x \<in> set m" for x
    using mo [OF that] by (simp add: sorter_def)
  have nm: "\<not> ((\<exists>x \<in> set (map fst m). fst (sorter h m x) = None) \<and>
                (\<exists>y \<in> set (map fst m). fst (sorter h m y) \<noteq> None))"
    using sec key by auto
  have ps: "py_sorted (sorter h m) (map fst m) = Inr ?ks"
    using nm by (simp add: py_sorted_def del: set_map)
  have st: "set ?ks = fst ` set m" "distinct ?ks" "sorted (map (sorter h m) ?ks)"
    using dist by (simp_all add: sorted_sort_key)
  have va: "\<forall>k \<in> set ?ks. \<exists>a. map_of m k = Some a \<and> a < length h"
  proof
    fix k assume "k \<in> set ?ks"
    with st(1) obtain x where x: "x \<in> set m" "k = fst x" by auto
    from valid x(1) have "snd x < length h" by (auto simp: list_all_iff)
    with mo [OF x(1)] x(2) show "\<exists>a. map_of m k = Some a \<and> a < length h" by simp
  qed
  have km: "map (sorter h m) ?ks =
      map (\<lambda>k. (s_section (h ! the (map_of m k)), s_order (h ! the (map_of m k)))) ?ks"
  proof (rule map_cong [OF refl])
    fix k assume "k \<in> set ?ks"
    with va obtain a where "map_of m k = Some a" by blast
    then show "sorter h m k = (s_section (h ! the (map_of m k)), s_order (h ! the (map_of m k)))"
      by (simp add: sorter_def)
  qed
  have "Config_parser env reg h c =
           Inr \<lparr>p_description = dsc, p_epilog = ep,
                p_arguments = version_argument env #
                  List.map_filter (\<lambda>k. add_argument_call (h ! the (map_of m k))) ?ks\<rparr>"
    using valid by (simp add: Config_parser_def rd re self_settings_def cs ps add_arguments_eq [OF va])
  with st km show ?thesis by (intro exI [of _ ?ks]) simp
qed

lemma make_settings_valid:
  assumes "make_settings reg app inc exc h = (Inr d, h')"
  shows "list_all (\<lambda>(k, a). a < length h') d"
proof -
  from make_settings_inv [OF assms] have dist: "distinct (map fst d)" by blast
  have "a < length h'" if "(k, a) \<in> set d" for k a
  proof -
    from that have "k \<in> set (map fst d)" by force
    from make_settings_keys [OF assms this] obtain b where
      b: "map_of d k = Some b" "b < length h'" by blast
    from map_of_is_SomeI [OF dist that] b show ?thesis by simp
  qed
  then show ?thesis by (auto simp: list_all_iff)
qed

lemma add_argument_call_cli:
  "truthy_opt (s_cli s) \<Longrightarrow>
     \<exists>kw. add_argument_call s = Some \<lparr>arg_args = the (s_cli s), arg_kwargs = kw\<rparr>"
  by (simp add: add_argument_call_def Let_def)

lemma add_argument_call_none:
  "\<not> truthy_opt (s_cli s) \<Longrightarrow> \<not> py_truthy (s_nargs s) \<Longrightarrow> add_argument_call s = None"
  by (simp add: add_argument_call_def Let_def)

text \<open>
  The claim C6 as it is written fails on a \<^verbatim>\<open>Config\<close> that binds \<^verbatim>\<open>logconfig\<close> alone: it has
  one bound setting, and its parser has the version flag and no other argument, because
  \<^verbatim>\<open>add_argument\<close> returns early for a setting without flags and without \<^verbatim>\<open>nargs\<close>.
\<close>

theorem Config_parser_skips_setting:
  "map fst (bound_settings (projr (fst config_logconfig))) = [Some ''logconfig''] \<and>
   Config_parser example_host (module_registry example_host) (snd config_logconfig)
       (projr (fst config_logconfig)) =
     Inr \<lparr>p_description = Val (PStr ''Pulsar server''), p_epilog = Val (PStr ''Have fun!''),
          p_arguments = [version_argument example_host]\<rparr>"
proof -
  let ?reg = "module_registry example_host"
  obtain c d h' where
    i: "Config_init ?reg [] None None None (Some [''logconfig'']) None = (Inr c, h')"
    and r: "make_settings ?reg None (Some [''logconfig'']) None [] = (Inr d, h')"
    and cs: "c ''settings'' = Some (SettingsDict d)"
    and cd: "c ''description'' = Some (Val (opt_val (or_opt None (Some ''Pulsar server''))))"
    and ce: "c ''epilog'' = Some (Val (opt_val (or_opt None (Some ''Have fun!''))))"
    using module_Config_init [of example_host "[]" None None None "Some [''logconfig'']" None]
    by (elim exE conjE) (rule that)
  from make_settings_inv [OF r] have dist: "distinct (map fst d)" by blast
  have "set (map fst d) = {Some ''logconfig''}"
    unfolding make_settings_key_set [OF r] by (simp add: module_eval)
  with dist have keys: "map fst d = [Some ''logconfig'']" by (rule distinct_singleton)
  then obtain a where d: "d = [(Some ''logconfig'', a)]" by (cases d) auto
  have "chosen (kept None (Some [''logconfig'']) (case None of None \<Rightarrow> [] | Some xs \<Rightarrow> xs))
     (KNOWN_SETTINGS ?reg) (Some ''logconfig'') = Some (registered_class example_host 16 LogConfig)"
    by (simp add: module_eval)
  from make_settings_at [OF r this] d have
    a: "a < length h'" "init_state (registered_class example_host 16 LogConfig) = Inr (h' ! a)"
    by auto
  from init_state_fields [OF a(2)] have
    f: "s_cli (h' ! a) = None" "s_nargs (h' ! a) = PNone" "s_section (h' ! a) = Some ''Logging''"
    by (simp_all add: registered_class_fields LogConfig_def Setting_attrs_def)
  have n: "add_argument_call (h' ! a) = None"
    by (rule add_argument_call_none) (simp_all add: f truthy_opt_def)
  have 1: "map fst (bound_settings (projr (fst config_logconfig))) = [Some ''logconfig'']"
    using keys cs by (simp add: config_logconfig_def i bound_settings_def)
  have 2: "Config_parser example_host ?reg h' c =
     Inr \<lparr>p_description = Val (PStr ''Pulsar server''), p_epilog = Val (PStr ''Have fun!''),
          p_arguments = [version_argument example_host]\<rparr>"
    using a(1) n f(3)
    by (simp add: Config_parser_def Config_read_def Config_class_attr_def cd ce cs
        self_settings_def d py_sorted_def sorter_def Setting_add_argument_def
        or_opt_def opt_val_def truthy_opt_def)
  from 1 2 show ?thesis by (simp add: config_logconfig_def i)
qed

theorem Config_parser_order_witness:
  "map arg_args (p_arguments (projr (Config_parser example_host (module_registry example_host)
       (snd config_workers_debug) (projr (fst config_workers_debug))))) =
     [[''--version''], [''--debug''], [''-w'', ''--workers'']]"
proof -
  let ?reg = "module_registry example_host"
  obtain c d h' where
    i: "Config_init ?reg [] None None None (Some [''workers'', ''debug'']) None = (Inr c, h')"
    and r: "make_settings ?reg None (Some [''workers'', ''debug'']) None [] = (Inr d, h')"
    and cs: "c ''settings'' = Some (SettingsDict d)"
    and cd: "c ''description'' = Some (Val (opt_val (or_opt None (Some ''Pulsar server''))))"
    and ce: "c ''epilog'' = Some (Val (opt_val (or_opt None (Some ''Have fun!''))))"
    using module_Config_init [of example_host "[]" None None None
        "Some [''workers'', ''debug'']" None]
    by (elim exE conjE) (rule that)
  from make_settings_inv [OF r] have dist: "distinct (map fst d)" by blast
  have keys: "fst ` set d = {Some ''debug'', Some ''workers''}"
    using make_settings_key_set [OF r] by (simp add: module_eval insert_commute)
  have "chosen (kept None (Some [''workers'', ''debug'']) (case None of None \<Rightarrow> [] | Some xs \<Rightarrow> xs))
     (KNOWN_SETTINGS ?reg) (Some ''workers'') = Some (registered_class example_host 1 Workers)"
    by (simp add: module_eval)
  from make_settings_at [OF r this] obtain w where
    w: "map_of d (Some ''workers'') = Some w" "w < length h'"
       "init_state (registered_class example_host 1 Workers) = Inr (h' ! w)" by blast
  have "chosen (kept None (Some [''workers'', ''debug'']) (case None of None \<Rightarrow> [] | Some xs \<Rightarrow> xs))
     (KNOWN_SETTINGS ?reg) (Some ''debug'') = Some (registered_class example_host 7 Debug)"
    by (simp add: module_eval)
  from make_settings_at [OF r this] obtain g where
    g: "map_of d (Some ''debug'') = Some g" "g < length h'"
       "init_state (registered_class example_host 7 Debug) = Inr (h' ! g)" by blast
  from init_state_fields [OF w(3)] have
    fw: "s_cli (h' ! w) = Some [''-w'', ''--workers'']"
        "s_section (h' ! w) = Some ''Worker Processes''" "s_order (h' ! w) = 1"
    by (simp_all add: registered_class_fields Workers_def Setting_attrs_def)
  from init_state_fields [OF g(3)] have
    fg: "s_cli (h' ! g) = Some [''--debug'']"
        "s_section (h' ! g) = Some ''Debugging''" "s_order (h' ! g) = 7"
    by (simp_all add: registered_class_fields Debug_def Setting_attrs_def)
  have sec: "(\<forall>x \<in> set d. s_section (h' ! snd x) = None) \<or>
             (\<forall>x \<in> set d. s_section (h' ! snd x) \<noteq> None)"
  proof (intro disjI2 ballI)
    fix x assume x: "x \<in> set d"
    then have m: "map_of d (fst x) = Some (snd x)"
      using map_of_is_SomeI [OF dist, of "fst x" "snd x"] by simp
    from x keys have "fst x = Some ''debug'' \<or> fst x = Some ''workers''" by auto
    with m w(1) g(1) fw fg show "s_section (h' ! snd x) \<noteq> None" by auto
  qed
  have rd: "Config_read example_host ?reg h' c ''description'' = Inr (Val (PStr ''Pulsar server''))"
    and re: "Config_read example_host ?reg h' c ''epilog'' = Inr (Val (PStr ''Have fun!''))"
    by (simp_all add: Config_read_def Config_class_attr_def cd ce or_opt_def opt_val_def
        truthy_opt_def)
  from Config_parser_order [where c = c and m = d and h = h' and env = example_host
      and reg = ?reg, OF cs dist make_settings_valid [OF r] sec rd re]
  obtain ks where
    p: "Config_parser example_host ?reg h' c =
           Inr \<lparr>p_description = Val (PStr ''Pulsar server''), p_epilog = Val (PStr ''Have fun!''),
                p_arguments = version_argument example_host #
                  List.map_filter (\<lambda>k. add_argument_call (h' ! the (map_of d k))) ks\<rparr>"
    and ks: "set ks = fst ` set d" "distinct ks"
      "sorted (map (\<lambda>k. (s_section (h' ! the (map_of d k)), s_order (h' ! the (map_of d k)))) ks)"
    by blast
  have "ks = [Some ''debug'', Some ''workers'']"
    by (rule sorted_two [OF _ ks(2) ks(3)])
       (simp_all add: ks(1) keys w(1) g(1) fw fg less_char_def)
  moreover obtain kw kg where
    "add_argument_call (h' ! w) = Some \<lparr>arg_args = [''-w'', ''--workers''], arg_kwargs = kw\<rparr>"
    "add_argument_call (h' ! g) = Some \<lparr>arg_args = [''--debug''], arg_kwargs = kg\<rparr>"
    using add_argument_call_cli [of "h' ! w"] add_argument_call_cli [of "h' ! g"]
    by (auto simp: fw fg truthy_opt_def)
  ultimately have "map arg_args (p_arguments (projr (Config_parser example_host ?reg h' c))) =
     [[''--version''], [''--debug''], [''-w'', ''--workers'']]"
    by (simp add: p List.map_filter_simps w(1) g(1) version_argument_def)
  then show ?thesis by (simp add: config_workers_debug_def i)
qed

subsection \<open>Two callers\<close>

lemma Config_setattr_plain:
  "Config_setattr c name v = Inr c' \<Longrightarrow> Config_class_attr name = None \<Longrightarrow>
     c' = c(name \<mapsto> Val v)"
  by (auto simp: Config_setattr_def object_setattr_def split: sum.splits if_splits bool.splits)

lemma Config_init_inv:
  assumes "Config_init reg h description epilog app inc exc = (Inr c, h')"
  shows "\<exists>d. make_settings reg app inc exc h = (Inr d, h') \<and>
              c ''settings'' = Some (SettingsDict d) \<and> bound_settings c = d \<and>
              (\<forall>name. name \<notin> {''settings'', ''description'', ''epilog''} \<longrightarrow> c name = None)"
proof -
  from assms obtain d c1 where
    r: "make_settings reg app inc exc h = (Inr d, h')"
    and c1: "Config_setattr (Map.empty(''settings'' \<mapsto> SettingsDict d)) ''description''
               (opt_val (or_opt description (Some ''Pulsar server''))) = Inr c1"
    and c2: "Config_setattr c1 ''epilog'' (opt_val (or_opt epilog (Some ''Have fun!''))) = Inr c"
    by (auto simp: Config_init_def split: prod.splits sum.splits)
  have a: "Config_class_attr ''description'' = None" "Config_class_attr ''epilog'' = None"
    by (simp_all add: Config_class_attr_def)
  from Config_setattr_plain [OF c1 a(1)] Config_setattr_plain [OF c2 a(2)]
  have "c = (Map.empty(''settings'' \<mapsto> SettingsDict d))
              (''description'' \<mapsto> Val (opt_val (or_opt description (Some ''Pulsar server''))),
               ''epilog'' \<mapsto> Val (opt_val (or_opt epilog (Some ''Have fun!''))))"
    by simp
  with r show ?thesis by (auto simp: bound_settings_def)
qed

lemma Config_set_inv:
  assumes "Config_set h c name v = (Inr (), h')" and "c ''settings'' = Some (SettingsDict d)"
  shows "\<exists>a f w. map_of d (Some name) = Some a \<and> a < length h \<and>
                 s_validator (h ! a) = Some f \<and> f v = Inr w \<and>
                 h' = h[a := (h ! a)\<lparr>s_value := w\<rparr>]"
  using assms
  by (auto simp: Config_set_def self_settings_def contains_dict getitem_def Setting_set_def
      split: option.splits sum.splits if_splits)

lemma Config_set_ok:
  assumes "c ''settings'' = Some (SettingsDict d)" and "map_of d (Some name) = Some a"
    and "a < length h" and "s_validator (h ! a) = Some f" and "f v = Inr w"
  shows "Config_set h c name v = (Inr (), h[a := (h ! a)\<lparr>s_value := w\<rparr>])"
  using assms
  by (simp add: Config_set_def self_settings_def contains_dict getitem_def Setting_set_def)

lemma Config_read_bound:
  assumes "c ''settings'' = Some (SettingsDict d)" and "map_of d (Some name) = Some a"
    and "a < length h" and "Config_class_attr name = None" and "c name = None"
  shows "Config_read env reg h c name = Inr (Val (s_value (h ! a)))"
  using assms
  by (simp add: Config_read_def Config_getattr_def self_settings_def contains_dict getitem_def
      Setting_get_def)

lemma make_settings_range:
  assumes "make_settings reg app inc exc h = (Inr d, h')" and "(k, a) \<in> set d"
  shows "length h \<le> a \<and> a < length h'"
proof -
  from make_settings_inv [OF assms(1)] have dist: "distinct (map fst d)" by blast
  from assms(2) have "k \<in> set (map fst d)" by force
  from make_settings_keys [OF assms(1) this] obtain b where
    b: "map_of d k = Some b" "length h \<le> b" "b < length h'" by blast
  from map_of_is_SomeI [OF dist assms(2)] b show ?thesis by simp
qed

lemma make_settings_object:
  assumes "make_settings reg app inc exc h = (Inr d, h')" and "map_of d k = Some a"
  shows "\<exists>s. chosen (kept app inc (case exc of None \<Rightarrow> [] | Some xs \<Rightarrow> xs)) (KNOWN_SETTINGS reg) k
               = Some s \<and> init_state s = Inr (h' ! a) \<and> length h \<le> a \<and> a < length h'"
proof -
  from assms(2) have "k \<in> set (map fst d)"
    by (metis map_of_eq_None_iff option.distinct(1) set_map)
  from make_settings_keys [OF assms(1) this] assms(2) show ?thesis by auto
qed

text \<open>
  C5. The Setting objects that the registry lookup hands to a caller are new objects, and
  no object is handed to two callers: the objects of two \<^verbatim>\<open>Config\<close> instances built from
  the same registry are disjoint. So when each instance sets \<^verbatim>\<open>timeout\<close>, each reads back
  the value that its own validator made of its own input, the second \<^verbatim>\<open>set\<close> leaves what
  the first instance reads as it was, and a \<^verbatim>\<open>Config\<close> built from the registry afterwards
  reads what the first one read when it was built: the default of the template is as it
  was.
\<close>

theorem Config_copies_independent:
  assumes i1: "Config_init reg h0 dsc1 ep1 app1 inc1 exc1 = (Inr c1, h1)"
    and i2: "Config_init reg h1 dsc2 ep2 app2 inc2 exc2 = (Inr c2, h2)"
    and s1: "Config_set h2 c1 ''timeout'' v1 = (Inr (), h3)"
    and s2: "Config_set h3 c2 ''timeout'' v2 = (Inr (), h4)"
  shows "snd ` set (bound_settings c1) \<inter> snd ` set (bound_settings c2) = {} \<and>
         (\<forall>a \<in> snd ` set (bound_settings c1) \<union> snd ` set (bound_settings c2). length h0 \<le> a) \<and>
         (\<exists>a1 a2 f1 f2 w1 w2.
            map_of (bound_settings c1) (Some ''timeout'') = Some a1 \<and>
            map_of (bound_settings c2) (Some ''timeout'') = Some a2 \<and>
            s_validator (h2 ! a1) = Some f1 \<and> f1 v1 = Inr w1 \<and>
            s_validator (h2 ! a2) = Some f2 \<and> f2 v2 = Inr w2 \<and>
            Config_read env reg h4 c1 ''timeout'' = Inr (Val w1) \<and>
            Config_read env reg h4 c2 ''timeout'' = Inr (Val w2)) \<and>
         Config_read env reg h3 c2 ''timeout'' = Config_read env reg h2 c2 ''timeout'' \<and>
         (\<forall>dsc3 ep3 c3 h5.
            Config_init reg h4 dsc3 ep3 app1 inc1 exc1 = (Inr c3, h5) \<longrightarrow>
            Config_read env reg h5 c3 ''timeout'' = Config_read env reg h1 c1 ''timeout'')"
proof -
  from Config_init_inv [OF i1] obtain d1 where
    r1: "make_settings reg app1 inc1 exc1 h0 = (Inr d1, h1)"
    and cs1: "c1 ''settings'' = Some (SettingsDict d1)" and b1: "bound_settings c1 = d1"
    and cn1: "\<forall>name. name \<notin> {''settings'', ''description'', ''epilog''} \<longrightarrow> c1 name = None"
    by blast
  from Config_init_inv [OF i2] obtain d2 where
    r2: "make_settings reg app2 inc2 exc2 h1 = (Inr d2, h2)"
    and cs2: "c2 ''settings'' = Some (SettingsDict d2)" and b2: "bound_settings c2 = d2"
    and cn2: "\<forall>name. name \<notin> {''settings'', ''description'', ''epilog''} \<longrightarrow> c2 name = None"
    by blast
  have t: "Config_class_attr ''timeout'' = None" by (simp add: Config_class_attr_def)
  from cn1 have n1: "c1 ''timeout'' = None" by simp
  from cn2 have n2: "c2 ''timeout'' = None" by simp
  from make_settings_inv [OF r1] have l01: "length h0 \<le> length h1" by blast
  from make_settings_inv [OF r2] have l12: "length h1 \<le> length h2" by blast
  have g1: "length h0 \<le> a \<and> a < length h1" if "a \<in> snd ` set d1" for a
    using that make_settings_range [OF r1] by force
  have g2: "length h1 \<le> a \<and> a < length h2" if "a \<in> snd ` set d2" for a
    using that make_settings_range [OF r2] by force
  from Config_set_inv [OF s1 cs1] obtain a1 f1 w1 where
    a1: "map_of d1 (Some ''timeout'') = Some a1" "a1 < length h2"
      "s_validator (h2 ! a1) = Some f1" "f1 v1 = Inr w1"
    and h3: "h3 = h2[a1 := (h2 ! a1)\<lparr>s_value := w1\<rparr>]" by blast
  from Config_set_inv [OF s2 cs2] obtain a2 f2 w2 where
    a2: "map_of d2 (Some ''timeout'') = Some a2" "a2 < length h3"
      "s_validator (h3 ! a2) = Some f2" "f2 v2 = Inr w2"
    and h4: "h4 = h3[a2 := (h3 ! a2)\<lparr>s_value := w2\<rparr>]" by blast
  from a1(1) have "a1 \<in> snd ` set d1" by (force dest: map_of_SomeD)
  from g1 [OF this] have ra1: "a1 < length h1" by simp
  from a2(1) have "a2 \<in> snd ` set d2" by (force dest: map_of_SomeD)
  from g2 [OF this] have ra2: "length h1 \<le> a2" "a2 < length h2" by simp_all
  from ra1 ra2 have ne: "a1 \<noteq> a2" by simp
  have v2: "s_validator (h2 ! a2) = Some f2" using a2(3) ne by (simp add: h3)
  have 1: "snd ` set (bound_settings c1) \<inter> snd ` set (bound_settings c2) = {}"
  proof -
    have "a \<notin> snd ` set d2" if "a \<in> snd ` set d1" for a
      using g1 [OF that] g2 [of a] by auto
    then show ?thesis by (auto simp: b1 b2)
  qed
  have 2: "\<forall>a \<in> snd ` set (bound_settings c1) \<union> snd ` set (bound_settings c2). length h0 \<le> a"
  proof
    fix a assume "a \<in> snd ` set (bound_settings c1) \<union> snd ` set (bound_settings c2)"
    then have "a \<in> snd ` set d1 \<or> a \<in> snd ` set d2" by (simp add: b1 b2)
    then show "length h0 \<le> a"
    proof
      assume "a \<in> snd ` set d1"
      from g1 [OF this] show ?thesis by simp
    next
      assume "a \<in> snd ` set d2"
      from g2 [OF this] l01 show ?thesis by simp
    qed
  qed
  have r41: "Config_read env reg h4 c1 ''timeout'' = Inr (Val w1)"
    using Config_read_bound [OF cs1 a1(1) _ t n1, of h4 env reg] a1(2) ne
    by (simp add: h4 h3)
  have r42: "Config_read env reg h4 c2 ''timeout'' = Inr (Val w2)"
    using Config_read_bound [OF cs2 a2(1) _ t n2, of h4 env reg] a2(2)
    by (simp add: h4)
  have 3: "\<exists>a1 a2 f1 f2 w1 w2.
            map_of (bound_settings c1) (Some ''timeout'') = Some a1 \<and>
            map_of (bound_settings c2) (Some ''timeout'') = Some a2 \<and>
            s_validator (h2 ! a1) = Some f1 \<and> f1 v1 = Inr w1 \<and>
            s_validator (h2 ! a2) = Some f2 \<and> f2 v2 = Inr w2 \<and>
            Config_read env reg h4 c1 ''timeout'' = Inr (Val w1) \<and>
            Config_read env reg h4 c2 ''timeout'' = Inr (Val w2)"
    using a1 a2 v2 r41 r42 b1 b2 by blast
  have 4: "Config_read env reg h3 c2 ''timeout'' = Config_read env reg h2 c2 ''timeout''"
    using Config_read_bound [OF cs2 a2(1) _ t n2, of h3 env reg]
      Config_read_bound [OF cs2 a2(1) _ t n2, of h2 env reg] a2(2) ra2 ne
    by (simp add: h3)
  have 5: "Config_read env reg h5 c3 ''timeout'' = Config_read env reg h1 c1 ''timeout''"
    if i3: "Config_init reg h4 dsc3 ep3 app1 inc1 exc1 = (Inr c3, h5)" for dsc3 ep3 c3 h5
  proof -
    from Config_init_inv [OF i3] obtain d3 where
      r3: "make_settings reg app1 inc1 exc1 h4 = (Inr d3, h5)"
      and cs3: "c3 ''settings'' = Some (SettingsDict d3)"
      and cn3: "\<forall>name. name \<notin> {''settings'', ''description'', ''epilog''} \<longrightarrow> c3 name = None"
      by blast
    from cn3 have n3: "c3 ''timeout'' = None" by simp
    from make_settings_object [OF r1 a1(1)] obtain s where
      s: "chosen (kept app1 inc1 (case exc1 of None \<Rightarrow> [] | Some xs \<Rightarrow> xs))
            (KNOWN_SETTINGS reg) (Some ''timeout'') = Some s"
      and o1: "init_state s = Inr (h1 ! a1)" by blast
    from make_settings_at [OF r3 s] obtain a3 where
      a3: "map_of d3 (Some ''timeout'') = Some a3" "a3 < length h5"
        "init_state s = Inr (h5 ! a3)" by blast
    from o1 a3(3) have "h5 ! a3 = h1 ! a1" by simp
    with Config_read_bound [OF cs3 a3(1) a3(2) t n3, of env reg]
      Config_read_bound [OF cs1 a1(1) ra1 t n1, of env reg]
    show ?thesis by simp
  qed
  from 1 2 3 4 5 show ?thesis by blast
qed

lemma module_timeout_object:
  assumes r: "make_settings (module_registry example_host) None None None h = (Inr d, h')"
  shows "\<exists>a. map_of d (Some ''timeout'') = Some a \<and> length h \<le> a \<and> a < length h' \<and>
     s_validator (h' ! a) = Some validate_pos_int \<and> s_value (h' ! a) = PInt 30"
proof -
  have "chosen (kept None None (case None of None \<Rightarrow> [] | Some xs \<Rightarrow> xs))
     (KNOWN_SETTINGS (module_registry example_host)) (Some ''timeout'')
       = Some (registered_class example_host 4 Timeout)"
    by (simp add: module_eval)
  from make_settings_at [OF r this] obtain a where
    a: "map_of d (Some ''timeout'') = Some a" "length h \<le> a" "a < length h'"
       "init_state (registered_class example_host 4 Timeout) = Inr (h' ! a)" by blast
  from init_state_fields [OF a(4)] have v: "s_validator (h' ! a) = Some validate_pos_int"
    by (simp add: registered_class_fields Timeout_def Setting_attrs_def wrap_method_def)
  have "s_value (h' ! a) = PInt 30"
    using init_state_value [OF a(4) registered_class_fields(12)]
    by (simp add: registered_class_fields Timeout_def Setting_attrs_def validator_defs)
  with a v show ?thesis by blast
qed

theorem Config_copies_independent_witness:
  "Config_read example_host (module_registry example_host) (snd second_set)
     (projr (fst default_config)) ''timeout'' = Inr (Val (PInt 10)) \<and>
   Config_read example_host (module_registry example_host) (snd second_set)
     (projr (fst second_config)) ''timeout'' = Inr (Val (PInt 60)) \<and>
   Config_read example_host (module_registry example_host) (snd third_config)
     (projr (fst third_config)) ''timeout'' = Inr (Val (PInt 30))"
proof -
  let ?reg = "module_registry example_host"
  obtain c1 d1 h1 where
    i1: "Config_init ?reg [] None None None None None = (Inr c1, h1)"
    and r1: "make_settings ?reg None None None [] = (Inr d1, h1)"
    and cs1: "c1 ''settings'' = Some (SettingsDict d1)"
    and cn1: "\<forall>name. name \<notin> {''settings'', ''description'', ''epilog''} \<longrightarrow> c1 name = None"
    using module_Config_init [of example_host "[]" None None None None None]
    by (elim exE conjE) (rule that)
  obtain c2 d2 h2 where
    i2: "Config_init ?reg h1 None None None None None = (Inr c2, h2)"
    and r2: "make_settings ?reg None None None h1 = (Inr d2, h2)"
    and cs2: "c2 ''settings'' = Some (SettingsDict d2)"
    using module_Config_init [of example_host h1 None None None None None]
    by (elim exE conjE) (rule that)
  from module_timeout_object [OF r1] obtain a1 where
    a1: "map_of d1 (Some ''timeout'') = Some a1" "a1 < length h1"
      "s_validator (h1 ! a1) = Some validate_pos_int" "s_value (h1 ! a1) = PInt 30" by blast
  from module_timeout_object [OF r2] obtain a2 where
    a2: "map_of d2 (Some ''timeout'') = Some a2" "length h1 \<le> a2" "a2 < length h2"
      "s_validator (h2 ! a2) = Some validate_pos_int" by blast
  from make_settings_inv [OF r2] have t12: "take (length h1) h2 = h1" "length h1 \<le> length h2"
    by blast+
  have e1: "h2 ! a1 = h1 ! a1"
    using nth_take [of a1 "length h1" h2] a1(2) by (simp add: t12)
  have va: "validate_pos_int (PInt 10) = Inr (PInt 10)" "validate_pos_int (PInt 60) = Inr (PInt 60)"
    by (simp_all add: validate_pos_int_def to_int_def)
  have l1: "a1 < length h2" using a1(2) t12(2) by simp
  have ne: "a1 \<noteq> a2" using a1(2) a2(2) by simp
  define h3 where "h3 = h2[a1 := (h2 ! a1)\<lparr>s_value := PInt 10\<rparr>]"
  define h4 where "h4 = h3[a2 := (h3 ! a2)\<lparr>s_value := PInt 60\<rparr>]"
  have s1: "Config_set h2 c1 ''timeout'' (PInt 10) = (Inr (), h3)"
    unfolding h3_def
    using Config_set_ok [where c = c1 and d = d1 and name = "''timeout''" and a = a1
        and h = h2 and f = validate_pos_int and v = "PInt 10" and w = "PInt 10"]
      cs1 a1(1) l1 va(1) e1 a1(3)
    by simp
  have s2: "Config_set h3 c2 ''timeout'' (PInt 60) = (Inr (), h4)"
    unfolding h4_def
    using Config_set_ok [where c = c2 and d = d2 and name = "''timeout''" and a = a2
        and h = h3 and f = validate_pos_int and v = "PInt 60" and w = "PInt 60"]
      cs2 a2 va(2) ne
    by (simp add: h3_def)
  obtain c3 h5 where i3: "Config_init ?reg h4 None None None None None = (Inr c3, h5)"
    using module_Config_init [of example_host h4 None None None None None]
    by (elim exE conjE) (rule that)
  have t: "Config_class_attr ''timeout'' = None" by (simp add: Config_class_attr_def)
  from cn1 have n1: "c1 ''timeout'' = None" by simp
  have r0: "Config_read example_host ?reg h1 c1 ''timeout'' = Inr (Val (PInt 30))"
    using Config_read_bound [OF cs1 a1(1) a1(2) t n1, of example_host ?reg] a1(4) by simp
  note th = Config_copies_independent [where env = example_host and reg = ?reg,
      OF i1 i2 s1 s2]
  from th [THEN conjunct2, THEN conjunct2, THEN conjunct1]
  obtain b1 b2 f1 f2 w1 w2 where
    b: "map_of (bound_settings c1) (Some ''timeout'') = Some b1"
       "map_of (bound_settings c2) (Some ''timeout'') = Some b2"
       "s_validator (h2 ! b1) = Some f1" "f1 (PInt 10) = Inr w1"
       "s_validator (h2 ! b2) = Some f2" "f2 (PInt 60) = Inr w2"
       "Config_read example_host ?reg h4 c1 ''timeout'' = Inr (Val w1)"
       "Config_read example_host ?reg h4 c2 ''timeout'' = Inr (Val w2)"
    by (elim exE conjE) (rule that)
  from th [THEN conjunct2, THEN conjunct2, THEN conjunct2, THEN conjunct2, rule_format, OF i3]
  have th: "Config_read example_host ?reg h5 c3 ''timeout'' =
             Config_read example_host ?reg h1 c1 ''timeout''" .
  from b(1,2) cs1 cs2 a1(1) a2(1) have "b1 = a1" "b2 = a2"
    by (simp_all add: bound_settings_def)
  with b(3-6) e1 a1(3) a2(4) va have "w1 = PInt 10" "w2 = PInt 60" by simp_all
  with b(7,8) th r0 show ?thesis
    by (simp add: third_config_def second_set_def first_set_def second_config_def
        default_config_def i1 i2 s1 s2 i3)
qed

end
